theory Spec2Isabelle
  imports Complex_Main "HOL-Library.AList" "HOL-Library.Sublist"
begin

section \<open>Metadata trees\<close>

text \<open>
  The parser \<^verbatim>\<open>ElectronMicroscopyParser\<close> of \<^verbatim>\<open>materials_io/electron_microscopy.py\<close>
  works on the nested dictionaries that HyperSpy hands back. A tree is a Python value:
  \<^verbatim>\<open>None\<close>, a bool, an int, a float, a str, a list or a dict with str keys. A dict is an
  association list in insertion order; \<open>AList.update\<close> is \<^verbatim>\<open>d[k] = v\<close> (in place when the key
  exists, appended otherwise), \<open>map_of\<close> is the lookup and \<open>AList.delete\<close> is \<^verbatim>\<open>d.pop(k)\<close>.
  A str is its UTF-8 byte sequence. A float is a real number: rounding, infinities and NaN
  are outside the model.
\<close>

datatype val =
    VNone
  | VBool bool
  | VInt int
  | VFloat real
  | VStr string
  | VList "val list"
  | VDict "(string \<times> val) list"

type_synonym pydict = "(string \<times> val) list"

text \<open>
  The exceptions that occur. \<open>ConversionError\<close> stands for the TypeError or ValueError of a
  built-in conversion, which the runtime below does not tell apart.
\<close>

datatype error = KeyError | TypeError | ValueError | AttributeError | ConversionError

text \<open>
  The built-in conversions \<^verbatim>\<open>str\<close>, \<^verbatim>\<open>float\<close>, \<^verbatim>\<open>int\<close>, \<^verbatim>\<open>bool\<close> and \<^verbatim>\<open>list\<close> belong to the
  Python runtime, not to this repository. The parser is modelled over any runtime: a
  conversion answers \<open>None\<close> where the built-in raises.
\<close>

record builtins =
  py_str :: "val \<Rightarrow> string option"
  py_float :: "val \<Rightarrow> real option"
  py_int :: "val \<Rightarrow> int option"
  py_bool :: "val \<Rightarrow> bool option"
  py_list :: "val \<Rightarrow> val list option"

text \<open>\<^verbatim>\<open>obj[key]\<close> for a str key: only a dict can be subscripted by a str.\<close>

fun subscript :: "val \<Rightarrow> string \<Rightarrow> error + val" where
  "subscript (VDict kvs) k = (case map_of kvs k of None \<Rightarrow> Inl KeyError | Some v \<Rightarrow> Inr v)"
| "subscript _ k = Inl TypeError"

text \<open>A chain \<^verbatim>\<open>obj[k1][k2]...\<close>; the first failing subscript raises.\<close>

fun subscripts :: "val \<Rightarrow> string list \<Rightarrow> error + val" where
  "subscripts v [] = Inr v"
| "subscripts v (k # ks) = (case subscript v k of Inl e \<Rightarrow> Inl e | Inr w \<Rightarrow> subscripts w ks)"

section \<open>Image shape\<close>

text \<open>
  Lines 209 to 215 of \<^verbatim>\<open>_parse_file\<close>: with two axes or more the first two are swapped,
  one axis is taken as it is, and no axis leaves \<^verbatim>\<open>shape\<close> the empty list.
\<close>

definition reorder_shape :: "int list \<Rightarrow> int list" where
  "reorder_shape base_shape =
     (if length base_shape \<ge> 2
        then [base_shape ! 1, base_shape ! 0] @ drop 2 base_shape
      else if length base_shape > 0 then base_shape
      else [])"

definition dimensions_path :: "string list" where
  "dimensions_path = [''ImageList'', ''TagGroup0'', ''ImageData'', ''Dimensions'']"

text \<open>
  The body of the \<^verbatim>\<open>try\<close> at lines 204 to 218, up to the value of \<^verbatim>\<open>shape\<close>: the subscript
  chain, \<^verbatim>\<open>.values()\<close> (an AttributeError unless the tag is a dict), \<^verbatim>\<open>int\<close> on every entry
  in order, then the reordering.
\<close>

definition derive_shape :: "builtins \<Rightarrow> pydict \<Rightarrow> error + int list" where
  "derive_shape py raw_meta =
     (case subscripts (VDict raw_meta) dimensions_path of
        Inl e \<Rightarrow> Inl e
      | Inr (VDict dims) \<Rightarrow>
          (case those (map (py_int py) (map snd dims)) of
             None \<Rightarrow> Inl ConversionError
           | Some base_shape \<Rightarrow> Inr (reorder_shape base_shape))
      | Inr _ \<Rightarrow> Inl AttributeError)"

text \<open>
  The whole \<^verbatim>\<open>try\<close>/\<^verbatim>\<open>except Exception\<close> statement, as the value of \<^verbatim>\<open>self.image\<close> after it:
  \<^verbatim>\<open>self.image\<close> starts empty, \<^verbatim>\<open>shape\<close> is stored only when it is not empty, and any
  exception is printed and dropped.
\<close>

definition image_info :: "builtins \<Rightarrow> pydict \<Rightarrow> pydict" where
  "image_info py raw_meta =
     (case derive_shape py raw_meta of
        Inl e \<Rightarrow> []
      | Inr shape \<Rightarrow> if shape \<noteq> [] then AList.update ''shape'' (VList (map VInt shape)) [] else [])"

section \<open>Removal of empty values\<close>

text \<open>
  Lines 223 to 226: the loop runs over a snapshot of the items of \<^verbatim>\<open>self.em\<close> and pops each
  key whose value is \<^verbatim>\<open>None\<close>, \<^verbatim>\<open>[]\<close> or \<^verbatim>\<open>{}\<close>.
\<close>

definition is_empty_value :: "val \<Rightarrow> bool" where
  "is_empty_value v = (v = VNone \<or> v = VList [] \<or> v = VDict [])"

definition remove_empty :: "pydict \<Rightarrow> pydict" where
  "remove_empty em =
     fold (\<lambda>(key, v) d. if is_empty_value v then AList.delete key d else d) em em"

section \<open>The attribute-mapping engine\<close>

text \<open>
  The parser imports \<^verbatim>\<open>get_nested_dict_value_by_path\<close> (as \<^verbatim>\<open>get_val\<close>),
  \<^verbatim>\<open>set_nested_dict_value_with_units\<close> (as \<^verbatim>\<open>set_val_units\<close>), \<^verbatim>\<open>MappingElements\<close> and
  \<^verbatim>\<open>map_dict_values\<close> from \<^verbatim>\<open>materials_io.utils\<close>, a module of the repository whose source
  is not at hand. They are modelled from sections 3, 4.1 and 4.2 of the specification.
\<close>

text \<open>
  Modelled from the spec: the walk of \<^verbatim>\<open>get\<close> along a path, one segment at a time. A
  missing key, or a value that cannot be keyed by a str, is "not found".
\<close>

fun walk :: "val \<Rightarrow> string list \<Rightarrow> val option" where
  "walk v [] = Some v"
| "walk (VDict kvs) (k # ks) = (case map_of kvs k of None \<Rightarrow> None | Some w \<Rightarrow> walk w ks)"
| "walk _ (k # ks) = None"

text \<open>
  Modelled from the spec: \<^verbatim>\<open>get(tree, path, cast=None)\<close> of section 4.1 (the missing
  \<^verbatim>\<open>get_nested_dict_value_by_path\<close>). "Not found" is Python's \<^verbatim>\<open>None\<close>, so a stored \<^verbatim>\<open>None\<close>
  read without a cast is not found either; a cast that raises gives not found.
\<close>

definition get_val :: "val \<Rightarrow> string list \<Rightarrow> (val \<Rightarrow> val option) option \<Rightarrow> val option" where
  "get_val tree path cast =
     (case walk tree path of
        None \<Rightarrow> None
      | Some v \<Rightarrow>
          (case cast of
             None \<Rightarrow> (if v = VNone then None else Some v)
           | Some c \<Rightarrow> c v))"

text \<open>
  Modelled from the spec: the write of \<^verbatim>\<open>set\<close> along a path, creating the intermediate
  mappings that are missing. The specification does not say what happens when an
  intermediate value is present and is not a mapping: the tree is left as it is. The
  empty path does not occur in the parser.
\<close>

fun set_path :: "pydict \<Rightarrow> string list \<Rightarrow> val \<Rightarrow> pydict" where
  "set_path d [] v = d"
| "set_path d [k] v = AList.update k v d"
| "set_path d (k # k' # ks) v =
     (case map_of d k of
        None \<Rightarrow> AList.update k (VDict (set_path [] (k' # ks) v)) d
      | Some (VDict sub) \<Rightarrow> AList.update k (VDict (set_path sub (k' # ks) v)) d
      | Some _ \<Rightarrow> d)"

text \<open>
  Modelled from the spec: a destination path is populated when it holds a leaf that is
  not empty ("already-present non-empty leaf", section 4.1; "destination path already
  populated", section 4.2).
\<close>

definition populated :: "pydict \<Rightarrow> string list \<Rightarrow> bool" where
  "populated d path =
     (case walk (VDict d) path of None \<Rightarrow> False | Some v \<Rightarrow> \<not> is_empty_value v)"

text \<open>
  Modelled from the spec: the leaf that \<^verbatim>\<open>set\<close> writes, the bare value or
  \<^verbatim>\<open>{"value": ..., "unit": ...}\<close> when a unit is given (section 3, ValueWithUnit).
\<close>

definition with_unit :: "val \<Rightarrow> string option \<Rightarrow> val" where
  "with_unit v unit =
     (case unit of None \<Rightarrow> v | Some u \<Rightarrow> VDict [(''value'', v), (''unit'', VStr u)])"

text \<open>
  Modelled from the spec: \<^verbatim>\<open>set(tree, path, value, unit=None)\<close> of section 4.1 with the
  caller's override flag (the missing \<^verbatim>\<open>set_nested_dict_value_with_units\<close>): a populated
  path is left alone unless the flag is set.
\<close>

definition set_val_units :: "pydict \<Rightarrow> string list \<Rightarrow> val \<Rightarrow> string option \<Rightarrow> bool \<Rightarrow> pydict" where
  "set_val_units nest_dict path v unit ovr =
     (if \<not> ovr \<and> populated nest_dict path then nest_dict
      else set_path nest_dict path (with_unit v unit))"

text \<open>
  Modelled from the spec: the MappingRule record of section 3 (the missing
  \<^verbatim>\<open>MappingElements\<close>), with the field names the parser passes. The field \<^verbatim>\<open>dest_dict\<close> is
  \<^verbatim>\<open>self.em\<close> in every rule of the parser: it is the state that the engine threads. A cast
  answers \<open>None\<close> where it raises.
\<close>

record MappingElements =
  source_dict :: val
  source_path :: "string list"
  dest_path :: "string list"
  cast_fn :: "val \<Rightarrow> val option"
  units :: "string option"
  conv_fn :: "(val \<Rightarrow> val) option"
  override :: bool

text \<open>
  Modelled from the spec: one step of \<^verbatim>\<open>apply\<close> (section 4.2): read; if not found,
  skip; cast; if the cast fails, skip; convert; write with the rule's unit and flag.
\<close>

definition apply_rule :: "MappingElements \<Rightarrow> pydict \<Rightarrow> pydict" where
  "apply_rule m dest =
     (case get_val (source_dict m) (source_path m) None of
        None \<Rightarrow> dest
      | Some v \<Rightarrow>
          (case cast_fn m v of
             None \<Rightarrow> dest
           | Some c \<Rightarrow>
               set_val_units dest (dest_path m)
                 (case conv_fn m of None \<Rightarrow> c | Some f \<Rightarrow> f c) (units m) (override m)))"

text \<open>
  Modelled from the spec: \<^verbatim>\<open>apply(rules)\<close> of section 4.2 (the missing
  \<^verbatim>\<open>map_dict_values\<close>): the rules in list order against the one destination tree.
\<close>

definition map_dict_values :: "MappingElements list \<Rightarrow> pydict \<Rightarrow> pydict" where
  "map_dict_values mapping dest = fold apply_rule mapping dest"

text \<open>The casts that the rules name, over a runtime.\<close>

definition cast_str :: "builtins \<Rightarrow> val \<Rightarrow> val option" where
  "cast_str py v = map_option VStr (py_str py v)"

definition cast_float :: "builtins \<Rightarrow> val \<Rightarrow> val option" where
  "cast_float py v = map_option VFloat (py_float py v)"

definition cast_int :: "builtins \<Rightarrow> val \<Rightarrow> val option" where
  "cast_int py v = map_option VInt (py_int py v)"

definition cast_bool :: "builtins \<Rightarrow> val \<Rightarrow> val option" where
  "cast_bool py v = map_option VBool (py_bool py v)"

definition cast_list :: "builtins \<Rightarrow> val \<Rightarrow> val option" where
  "cast_list py v = map_option VList (py_list py v)"

text \<open>
  A conversion such as \<^verbatim>\<open>lambda x: x / 1000\<close> is arithmetic on the float that the cast
  returned; every rule that carries one casts with \<^verbatim>\<open>float\<close>.
\<close>

fun on_float :: "(real \<Rightarrow> real) \<Rightarrow> val \<Rightarrow> val" where
  "on_float f (VFloat x) = VFloat (f x)"
| "on_float f v = v"

section \<open>Text of the embedded Tecnai block\<close>

fun starts_with :: "string \<Rightarrow> string \<Rightarrow> bool" where
  "starts_with [] s = True"
| "starts_with (p # ps) [] = False"
| "starts_with (p # ps) (x # xs) = (p = x \<and> starts_with ps xs)"

text \<open>\<^verbatim>\<open>sub in s\<close> for two strs.\<close>

fun str_in :: "string \<Rightarrow> string \<Rightarrow> bool" where
  "str_in sub [] = starts_with sub []"
| "str_in sub (x # xs) = (starts_with sub (x # xs) \<or> str_in sub xs)"

text \<open>
  \<^verbatim>\<open>s.split(sep)\<close> for a separator that is not empty (Python raises ValueError on the
  empty one): the pieces between the occurrences of \<open>sep\<close>, found from the left.
\<close>

function split_from :: "string \<Rightarrow> string \<Rightarrow> string \<Rightarrow> string list" where
  "split_from sep cur [] = [rev cur]"
| "split_from sep cur (x # xs) =
     (if sep \<noteq> [] \<and> starts_with sep (x # xs)
        then rev cur # split_from sep [] (drop (length sep) (x # xs))
      else split_from sep (x # cur) xs)"
  by pat_completeness auto
termination
  by (relation "measure (\<lambda>(sep, cur, s). length s)") auto

definition py_split :: "string \<Rightarrow> string \<Rightarrow> error + string list" where
  "py_split s sep = (if sep = [] then Inl ValueError else Inr (split_from sep [] s))"

text \<open>
  \<^verbatim>\<open>s.replace(old, new)\<close> for \<open>old\<close> not empty: every occurrence from the left.
\<close>

function py_replace :: "string \<Rightarrow> string \<Rightarrow> string \<Rightarrow> string" where
  "py_replace old new [] = []"
| "py_replace old new (x # xs) =
     (if old \<noteq> [] \<and> starts_with old (x # xs)
        then new @ py_replace old new (drop (length old) (x # xs))
      else x # py_replace old new xs)"
  by pat_completeness auto
termination
  by (relation "measure (\<lambda>(old, new, s). length s)") auto

text \<open>
  The regular expressions of the parser are sequences of literal characters, greedy
  starred character classes and an optional character, with one capturing group.
\<close>

datatype atom = Lit char | Star "char \<Rightarrow> bool" | Opt char | GOpen | GClose

definition lits :: "string \<Rightarrow> atom list" where
  "lits s = map Lit s"

text \<open>
  The character classes \<^verbatim>\<open>\d\<close>, \<^verbatim>\<open>.\<close> (anything but a newline) and \<^verbatim>\<open>[\d|\.]\<close> (a digit, a
  bar or a point). \<^verbatim>\<open>\d\<close> is taken as the ASCII digits; the digits of other scripts, which
  Python's \<^verbatim>\<open>\d\<close> accepts in a str as well, are outside the model.
\<close>

definition digit :: "char \<Rightarrow> bool" where
  "digit c = (c \<in> set ''0123456789'')"

definition any_char :: "char \<Rightarrow> bool" where
  "any_char c = (c \<noteq> CHR 0x0A)"

definition digit_bar_dot :: "char \<Rightarrow> bool" where
  "digit_bar_dot c = (digit c \<or> c = CHR ''|'' \<or> c = CHR ''.'')"

text \<open>
  A backtracking match of the atoms at the start of the input, as \<^verbatim>\<open>re\<close> runs it: a star
  or an optional character first takes one more character and gives it back when the rest
  fails. \<open>grp\<close> says whether the group is open and \<open>cap\<close> is the text captured so far,
  reversed. The answer is the group's text and the input after the match.
\<close>

fun rx_match :: "atom list \<Rightarrow> string \<Rightarrow> bool \<Rightarrow> string \<Rightarrow> (string \<times> string) option" where
  "rx_match [] s grp cap = Some (rev cap, s)"
| "rx_match (GOpen # as) s grp cap = rx_match as s True []"
| "rx_match (GClose # as) s grp cap = rx_match as s False cap"
| "rx_match (Lit c # as) [] grp cap = None"
| "rx_match (Lit c # as) (x # xs) grp cap =
     (if x = c then rx_match as xs grp (if grp then x # cap else cap) else None)"
| "rx_match (Opt c # as) [] grp cap = rx_match as [] grp cap"
| "rx_match (Opt c # as) (x # xs) grp cap =
     (case (if x = c then rx_match as xs grp (if grp then x # cap else cap) else None) of
        Some r \<Rightarrow> Some r
      | None \<Rightarrow> rx_match as (x # xs) grp cap)"
| "rx_match (Star P # as) [] grp cap = rx_match as [] grp cap"
| "rx_match (Star P # as) (x # xs) grp cap =
     (case (if P x then rx_match (Star P # as) xs grp (if grp then x # cap else cap) else None) of
        Some r \<Rightarrow> Some r
      | None \<Rightarrow> rx_match as (x # xs) grp cap)"

text \<open>\<^verbatim>\<open>pattern.search(s)\<close>: the match at the leftmost position that has one.\<close>

fun rx_search :: "atom list \<Rightarrow> string \<Rightarrow> (string \<times> string) option" where
  "rx_search rx [] = rx_match rx [] False []"
| "rx_search rx (x # xs) =
     (case rx_match rx (x # xs) False [] of
        Some r \<Rightarrow> Some r
      | None \<Rightarrow> rx_search rx xs)"

text \<open>
  \<^verbatim>\<open>re.findall(pattern, s)\<close> for a pattern with one group: the group of every match, each
  search starting where the last match ended. The patterns of the parser never match the
  empty string; after an empty match the search moves on by one character.
\<close>

function rx_findall :: "atom list \<Rightarrow> string \<Rightarrow> string list" where
  "rx_findall rx [] = (case rx_match rx [] False [] of Some (g, rest) \<Rightarrow> [g] | None \<Rightarrow> [])"
| "rx_findall rx (x # xs) =
     (case rx_match rx (x # xs) False [] of
        None \<Rightarrow> rx_findall rx xs
      | Some (g, rest) \<Rightarrow>
          (if length rest < length (x # xs) then g # rx_findall rx rest
           else g # rx_findall rx xs))"
  by pat_completeness auto
termination
  by (relation "measure (\<lambda>(rx, s). length s)") auto

text \<open>
  \<^verbatim>\<open>__find_val\<close> (lines 861 to 876): the first line that contains the text, with the text
  removed from its start by \<^verbatim>\<open>re.sub("^" + s_to_find, "", res)\<close>. None of the texts searched
  for has a regex metacharacter, so the substitution drops a literal prefix.
\<close>

definition find_val :: "string \<Rightarrow> string list \<Rightarrow> string option" where
  "find_val s_to_find list_to_search =
     (case filter (str_in s_to_find) list_to_search of
        [] \<Rightarrow> None
      | res # _ \<Rightarrow>
          Some (if starts_with s_to_find res then drop (length s_to_find) res else res))"

text \<open>
  \<^verbatim>\<open>__extract_val\<close> (lines 878 to 886) with \<^verbatim>\<open>match_num = 1\<close>: \<^verbatim>\<open>search\<close> raises TypeError
  when it is handed \<^verbatim>\<open>None\<close> instead of a str.
\<close>

fun extract_val :: "atom list \<Rightarrow> string option \<Rightarrow> error + string option" where
  "extract_val regex None = Inl TypeError"
| "extract_val regex (Some str_to_search) = Inr (map_option fst (rx_search regex str_to_search))"

section \<open>The extraction stages\<close>

text \<open>
  Each list literal of \<^verbatim>\<open>MappingElements\<close> in the parser is a definition here, in the
  order and with the keyword arguments of the source; the stage functions below put them
  together as the methods do. \<^verbatim>\<open>self.em\<close> is passed in and handed back.
\<close>

subsection \<open>HyperSpy metadata\<close>

text \<open>\<^verbatim>\<open>_process_hs_data\<close>, the first \<^verbatim>\<open>mapping\<close> (lines 252 to 340).\<close>

definition hs_instrument_mapping :: "builtins \<Rightarrow> val \<Rightarrow> MappingElements list" where
  "hs_instrument_mapping py source =
     [\<lparr>source_dict = source, source_path = [''acquisition_mode''],
       dest_path = [''General_EM'', ''acquisition_mode''],
       cast_fn = cast_str py, units = None, conv_fn = None, override = False\<rparr>,
      \<lparr>source_dict = source, source_path = [''beam_current''],
       dest_path = [''General_EM'', ''beam_current''],
       cast_fn = cast_float py, units = Some ''NanoA'', conv_fn = None, override = False\<rparr>,
      \<lparr>source_dict = source, source_path = [''beam_energy''],
       dest_path = [''General_EM'', ''beam_energy''],
       cast_fn = cast_float py, units = Some ''KiloEV'', conv_fn = None, override = False\<rparr>,
      \<lparr>source_dict = source, source_path = [''convergence_angle''],
       dest_path = [''General_EM'', ''convergence_angle''],
       cast_fn = cast_float py, units = Some ''MilliRAD'', conv_fn = None, override = False\<rparr>,
      \<lparr>source_dict = source, source_path = [''magnification''],
       dest_path = [''General_EM'', ''magnification_indicated''],
       cast_fn = cast_float py, units = Some ''UNITLESS'', conv_fn = None, override = False\<rparr>,
      \<lparr>source_dict = source, source_path = [''microscope''],
       dest_path = [''General_EM'', ''microscope_name''],
       cast_fn = cast_str py, units = None, conv_fn = None, override = False\<rparr>,
      \<lparr>source_dict = source, source_path = [''probe_area''],
       dest_path = [''General_EM'', ''probe_area''],
       cast_fn = cast_float py, units = Some ''NanoM2'', conv_fn = None, override = False\<rparr>,
      \<lparr>source_dict = source, source_path = [''Stage'', ''rotation''],
       dest_path = [''General_EM'', ''stage_position'', ''rotation''],
       cast_fn = cast_float py, units = Some ''DEG'', conv_fn = None, override = False\<rparr>,
      \<lparr>source_dict = source, source_path = [''Stage'', ''tilt_alpha''],
       dest_path = [''General_EM'', ''stage_position'', ''tilt_alpha''],
       cast_fn = cast_float py, units = Some ''DEG'', conv_fn = None, override = False\<rparr>,
      \<lparr>source_dict = source, source_path = [''Stage'', ''tilt_beta''],
       dest_path = [''General_EM'', ''stage_position'', ''tilt_beta''],
       cast_fn = cast_float py, units = Some ''DEG'', conv_fn = None, override = False\<rparr>,
      \<lparr>source_dict = source, source_path = [''Stage'', ''x''],
       dest_path = [''General_EM'', ''stage_position'', ''x''],
       cast_fn = cast_float py, units = Some ''MilliM'', conv_fn = None, override = False\<rparr>,
      \<lparr>source_dict = source, source_path = [''Stage'', ''y''],
       dest_path = [''General_EM'', ''stage_position'', ''y''],
       cast_fn = cast_float py, units = Some ''MilliM'', conv_fn = None, override = False\<rparr>,
      \<lparr>source_dict = source, source_path = [''Stage'', ''z''],
       dest_path = [''General_EM'', ''stage_position'', ''z''],
       cast_fn = cast_float py, units = Some ''MilliM'', conv_fn = None, override = False\<rparr>,
      \<lparr>source_dict = source, source_path = [''camera_length''],
       dest_path = [''TEM'', ''camera_length''],
       cast_fn = cast_float py, units = Some ''MilliM'', conv_fn = None, override = False\<rparr>,
      \<lparr>source_dict = source, source_path = [''working_distance''],
       dest_path = [''SEM'', ''working_distance''],
       cast_fn = cast_float py, units = Some ''MilliM'', conv_fn = None, override = False\<rparr>]"

text \<open>\<^verbatim>\<open>_process_hs_data\<close>, the second \<^verbatim>\<open>mapping\<close> (lines 348 to 390).\<close>

definition hs_general_mapping :: "builtins \<Rightarrow> val \<Rightarrow> MappingElements list" where
  "hs_general_mapping py source =
     [\<lparr>source_dict = source, source_path = [''Sample'', ''elements''],
       dest_path = [''General_EM'', ''elements''],
       cast_fn = cast_list py, units = None, conv_fn = None, override = False\<rparr>,
      \<lparr>source_dict = source, source_path = [''General'', ''date''],
       dest_path = [''General'', ''date''],
       cast_fn = cast_str py, units = None, conv_fn = None, override = False\<rparr>,
      \<lparr>source_dict = source, source_path = [''General'', ''doi''],
       dest_path = [''General'', ''doi''],
       cast_fn = cast_str py, units = None, conv_fn = None, override = False\<rparr>,
      \<lparr>source_dict = source, source_path = [''General'', ''original_filename''],
       dest_path = [''General'', ''original_filename''],
       cast_fn = cast_str py, units = None, conv_fn = None, override = False\<rparr>,
      \<lparr>source_dict = source, source_path = [''General'', ''notes''],
       dest_path = [''General'', ''notes''],
       cast_fn = cast_str py, units = None, conv_fn = None, override = False\<rparr>,
      \<lparr>source_dict = source, source_path = [''General'', ''time''],
       dest_path = [''General'', ''time''],
       cast_fn = cast_str py, units = None, conv_fn = None, override = False\<rparr>,
      \<lparr>source_dict = source, source_path = [''General'', ''time_zone''],
       dest_path = [''General'', ''time_zone''],
       cast_fn = cast_str py, units = None, conv_fn = None, override = False\<rparr>,
      \<lparr>source_dict = source, source_path = [''General'', ''title''],
       dest_path = [''General'', ''title''],
       cast_fn = cast_str py, units = None, conv_fn = None, override = False\<rparr>]"

text \<open>\<^verbatim>\<open>_process_hs_detectors\<close>, the rule that is always present (lines 402 to 408).\<close>

definition hs_detector_type_mapping :: "builtins \<Rightarrow> val \<Rightarrow> MappingElements list" where
  "hs_detector_type_mapping py inst_data =
     [\<lparr>source_dict = inst_data, source_path = [''detector_type''],
       dest_path = [''General_EM'', ''detector_name''],
       cast_fn = cast_str py, units = None, conv_fn = None, override = False\<rparr>]"

text \<open>\<^verbatim>\<open>_process_hs_detectors\<close>, the rules added under a detector node (lines 411 to 474).\<close>

definition hs_detector_node_mapping :: "builtins \<Rightarrow> val \<Rightarrow> MappingElements list" where
  "hs_detector_node_mapping py detector_node =
     [\<lparr>source_dict = detector_node, source_path = [''EDS'', ''azimuth_angle''],
       dest_path = [''EDS'', ''azimuth_angle''],
       cast_fn = cast_float py, units = Some ''DEG'', conv_fn = None, override = False\<rparr>,
      \<lparr>source_dict = detector_node, source_path = [''EDS'', ''elevation_angle''],
       dest_path = [''EDS'', ''elevation_angle''],
       cast_fn = cast_float py, units = Some ''DEG'', conv_fn = None, override = False\<rparr>,
      \<lparr>source_dict = detector_node, source_path = [''EDS'', ''energy_resolution_MnKa''],
       dest_path = [''EDS'', ''energy_resolution_MnKa''],
       cast_fn = cast_float py, units = Some ''EV'', conv_fn = None, override = False\<rparr>,
      \<lparr>source_dict = detector_node, source_path = [''EDS'', ''live_time''],
       dest_path = [''EDS'', ''live_time''],
       cast_fn = cast_float py, units = Some ''SEC'', conv_fn = None, override = False\<rparr>,
      \<lparr>source_dict = detector_node, source_path = [''EDS'', ''real_time''],
       dest_path = [''EDS'', ''real_time''],
       cast_fn = cast_float py, units = Some ''SEC'', conv_fn = None, override = False\<rparr>,
      \<lparr>source_dict = detector_node, source_path = [''EELS'', ''aperture_size''],
       dest_path = [''EELS'', ''aperture_size''],
       cast_fn = cast_float py, units = Some ''MilliM'', conv_fn = None, override = False\<rparr>,
      \<lparr>source_dict = detector_node, source_path = [''EELS'', ''collection_angle''],
       dest_path = [''EELS'', ''collection_angle''],
       cast_fn = cast_float py, units = Some ''MilliRAD'', conv_fn = None, override = False\<rparr>,
      \<lparr>source_dict = detector_node, source_path = [''EELS'', ''dwell_time''],
       dest_path = [''General_EM'', ''dwell_time''],
       cast_fn = cast_float py, units = Some ''SEC'', conv_fn = None, override = False\<rparr>,
      \<lparr>source_dict = detector_node, source_path = [''EELS'', ''exposure''],
       dest_path = [''General_EM'', ''exposure_time''],
       cast_fn = cast_float py, units = Some ''SEC'', conv_fn = None, override = False\<rparr>,
      \<lparr>source_dict = detector_node, source_path = [''EELS'', ''frame_number''],
       dest_path = [''EELS'', ''number_of_samples''],
       cast_fn = cast_int py, units = Some ''NUM'', conv_fn = None, override = False\<rparr>,
      \<lparr>source_dict = detector_node, source_path = [''EELS'', ''spectrometer''],
       dest_path = [''EELS'', ''spectrometer_name''],
       cast_fn = cast_str py, units = None, conv_fn = None, override = False\<rparr>]"

text \<open>\<^verbatim>\<open>_process_hs_detectors\<close> (lines 394 to 475).\<close>

definition process_hs_detectors :: "builtins \<Rightarrow> val \<Rightarrow> pydict \<Rightarrow> pydict" where
  "process_hs_detectors py inst_data em =
     map_dict_values
       (hs_detector_type_mapping py inst_data @
        (case get_val inst_data [''Detector''] None of
           None \<Rightarrow> []
         | Some detector_node \<Rightarrow> hs_detector_node_mapping py detector_node))
       em"

text \<open>
  \<^verbatim>\<open>self.meta.get('Acquisition_instrument', {}).keys()\<close>: the keys of the instrument
  node, no key when the node is missing, an AttributeError when it is not a dict.
\<close>

definition instrument_keys :: "pydict \<Rightarrow> error + string list" where
  "instrument_keys meta =
     (case map_of meta ''Acquisition_instrument'' of
        None \<Rightarrow> Inr []
      | Some (VDict d) \<Rightarrow> Inr (map fst d)
      | Some _ \<Rightarrow> Inl AttributeError)"

text \<open>\<^verbatim>\<open>_process_hs_data\<close> (lines 236 to 392).\<close>

definition process_hs_data :: "builtins \<Rightarrow> pydict \<Rightarrow> pydict \<Rightarrow> error + pydict" where
  "process_hs_data py meta em =
     (case instrument_keys meta of
        Inl e \<Rightarrow> Inl e
      | Inr keys \<Rightarrow>
          (let inst = (if ''SEM'' \<in> set keys then ''SEM''
                       else if ''TEM'' \<in> set keys then ''TEM'' else ''None'');
               em1 = (case get_val (VDict meta) [''Acquisition_instrument'', inst] None of
                        None \<Rightarrow> em
                      | Some inst_data \<Rightarrow>
                          process_hs_detectors py inst_data
                            (map_dict_values (hs_instrument_mapping py inst_data) em))
           in Inr (map_dict_values (hs_general_mapping py (VDict meta)) em1)))"

subsection \<open>DigitalMicrograph tags\<close>

text \<open>\<^verbatim>\<open>__get_dm3_tag_pre_path\<close> (lines 662 to 689).\<close>

definition get_dm3_tag_pre_path :: "pydict \<Rightarrow> string list" where
  "get_dm3_tag_pre_path raw_meta =
     (if get_val (VDict raw_meta) [''ImageList'', ''TagGroup0'', ''ImageTags'', ''plane info''] None
           \<noteq> None
        then [''ImageList'', ''TagGroup0'', ''ImageTags'', ''plane info'', ''TagGroup0'',
              ''source tags'']
      else [''ImageList'', ''TagGroup0'', ''ImageTags''])"

text \<open>\<^verbatim>\<open>_dm3_general_info\<close>, "Microscope Info" (lines 482 to 567).\<close>

definition dm3_microscope_info_mapping :: "builtins \<Rightarrow> pydict \<Rightarrow> string list \<Rightarrow> MappingElements list" where
  "dm3_microscope_info_mapping py raw_meta base =
     [\<lparr>source_dict = VDict raw_meta, source_path = base @ [''Indicated Magnification''],
       dest_path = [''General_EM'', ''magnification_indicated''],
       cast_fn = cast_float py, units = Some ''UNITLESS'', conv_fn = None, override = False\<rparr>,
      \<lparr>source_dict = VDict raw_meta, source_path = base @ [''Actual Magnification''],
       dest_path = [''General_EM'', ''magnification_actual''],
       cast_fn = cast_float py, units = Some ''UNITLESS'', conv_fn = None, override = False\<rparr>,
      \<lparr>source_dict = VDict raw_meta, source_path = base @ [''Cs(mm)''],
       dest_path = [''TEM'', ''spherical_aberration_coefficient''],
       cast_fn = cast_float py, units = Some ''MilliM'', conv_fn = None, override = False\<rparr>,
      \<lparr>source_dict = VDict raw_meta, source_path = base @ [''STEM Camera Length''],
       dest_path = [''TEM'', ''camera_length''],
       cast_fn = cast_float py, units = Some ''MilliM'', conv_fn = None, override = False\<rparr>,
      \<lparr>source_dict = VDict raw_meta, source_path = base @ [''Operation Mode''],
       dest_path = [''TEM'', ''operation_mode''],
       cast_fn = cast_str py, units = None, conv_fn = None, override = False\<rparr>,
      \<lparr>source_dict = VDict raw_meta, source_path = base @ [''Imaging Mode''],
       dest_path = [''TEM'', ''imaging_mode''],
       cast_fn = cast_str py, units = None, conv_fn = None, override = False\<rparr>,
      \<lparr>source_dict = VDict raw_meta, source_path = base @ [''Illumination Mode''],
       dest_path = [''TEM'', ''illumination_mode''],
       cast_fn = cast_str py, units = None, conv_fn = None, override = False\<rparr>,
      \<lparr>source_dict = VDict raw_meta, source_path = base @ [''Microscope''],
       dest_path = [''General_EM'', ''microscope_name''],
       cast_fn = cast_str py, units = None, conv_fn = None, override = False\<rparr>,
      \<lparr>source_dict = VDict raw_meta, source_path = base @ [''Stage Position'', ''Stage X''],
       dest_path = [''General_EM'', ''stage_position'', ''x''],
       cast_fn = cast_float py, units = Some ''MilliM'', conv_fn = Some (on_float (\<lambda>x. x / 1000)), override = False\<rparr>,
      \<lparr>source_dict = VDict raw_meta, source_path = base @ [''Stage Position'', ''Stage Y''],
       dest_path = [''General_EM'', ''stage_position'', ''y''],
       cast_fn = cast_float py, units = Some ''MilliM'', conv_fn = Some (on_float (\<lambda>x. x / 1000)), override = False\<rparr>,
      \<lparr>source_dict = VDict raw_meta, source_path = base @ [''Stage Position'', ''Stage Z''],
       dest_path = [''General_EM'', ''stage_position'', ''z''],
       cast_fn = cast_float py, units = Some ''MilliM'', conv_fn = Some (on_float (\<lambda>x. x / 1000)), override = False\<rparr>,
      \<lparr>source_dict = VDict raw_meta, source_path = base @ [''Stage Position'', ''Stage Alpha''],
       dest_path = [''General_EM'', ''stage_position'', ''tilt_alpha''],
       cast_fn = cast_float py, units = Some ''DEG'', conv_fn = None, override = False\<rparr>,
      \<lparr>source_dict = VDict raw_meta, source_path = base @ [''Stage Position'', ''Stage Beta''],
       dest_path = [''General_EM'', ''stage_position'', ''tilt_beta''],
       cast_fn = cast_float py, units = Some ''DEG'', conv_fn = None, override = False\<rparr>,
      \<lparr>source_dict = VDict raw_meta, source_path = base @ [(''Emission Current ('' @ [CHR 0xC2, CHR 0xB5] @ ''A)'')],
       dest_path = [''General_EM'', ''emission_current''],
       cast_fn = cast_float py, units = Some ''MicroA'', conv_fn = None, override = False\<rparr>]"

text \<open>
  \<^verbatim>\<open>_dm3_general_info\<close>, the rule added when \<^verbatim>\<open>voltage\<close> is not \<^verbatim>\<open>None\<close> (lines 571 to
  579); \<open>voltage\<close> is the float that \<^verbatim>\<open>get_val(..., float)\<close> returned.
\<close>

definition dm3_voltage_mapping :: "builtins \<Rightarrow> pydict \<Rightarrow> string list \<Rightarrow> real \<Rightarrow> MappingElements list" where
  "dm3_voltage_mapping py raw_meta base voltage =
     [\<lparr>source_dict = VDict raw_meta, source_path = base @ [''Voltage''],
       dest_path = [''General_EM'', ''accelerating_voltage''],
       cast_fn = cast_float py, units = Some (if voltage \<ge> 1000 then ''KiloEV'' else ''EV''), conv_fn = Some (on_float (\<lambda>x. if voltage \<ge> 1000 then x / 1000 else x)), override = False\<rparr>]"

text \<open>\<^verbatim>\<open>_dm3_general_info\<close>, "Session Info" (lines 583 to 592).\<close>

definition dm3_session_info_mapping :: "builtins \<Rightarrow> pydict \<Rightarrow> string list \<Rightarrow> MappingElements list" where
  "dm3_session_info_mapping py raw_meta base =
     [\<lparr>source_dict = VDict raw_meta, source_path = base @ [''Detector''],
       dest_path = [''General_EM'', ''detector_name''],
       cast_fn = cast_str py, units = None, conv_fn = None, override = False\<rparr>,
      \<lparr>source_dict = VDict raw_meta, source_path = base @ [''Microscope''],
       dest_path = [''General_EM'', ''microscope_name''],
       cast_fn = cast_str py, units = None, conv_fn = None, override = False\<rparr>]"

text \<open>\<^verbatim>\<open>_dm3_general_info\<close>, "Meta Data" (lines 596 to 619).\<close>

definition dm3_meta_data_mapping :: "builtins \<Rightarrow> pydict \<Rightarrow> string list \<Rightarrow> MappingElements list" where
  "dm3_meta_data_mapping py raw_meta base =
     [\<lparr>source_dict = VDict raw_meta, source_path = base @ [''Acquisition Mode''],
       dest_path = [''TEM'', ''acquisition_mode''],
       cast_fn = cast_str py, units = None, conv_fn = None, override = False\<rparr>,
      \<lparr>source_dict = VDict raw_meta, source_path = base @ [''Format''],
       dest_path = [''TEM'', ''acquisition_format''],
       cast_fn = cast_str py, units = None, conv_fn = None, override = False\<rparr>,
      \<lparr>source_dict = VDict raw_meta, source_path = base @ [''Signal''],
       dest_path = [''TEM'', ''acquisition_signal''],
       cast_fn = cast_str py, units = None, conv_fn = None, override = False\<rparr>,
      \<lparr>source_dict = VDict raw_meta, source_path = base @ [''Experiment keywords'', ''TagGroup1'', ''Label''],
       dest_path = [''TEM'', ''acquisition_signal''],
       cast_fn = cast_str py, units = None, conv_fn = None, override = False\<rparr>]"

text \<open>\<^verbatim>\<open>_dm3_general_info\<close>, the miscellaneous tags (lines 623 to 651).\<close>

definition dm3_misc_mapping :: "builtins \<Rightarrow> pydict \<Rightarrow> string list \<Rightarrow> MappingElements list" where
  "dm3_misc_mapping py raw_meta base =
     [\<lparr>source_dict = VDict raw_meta, source_path = base @ [''Acquisition'', ''Device'', ''Name''],
       dest_path = [''TEM'', ''acquisition_device''],
       cast_fn = cast_str py, units = None, conv_fn = None, override = False\<rparr>,
      \<lparr>source_dict = VDict raw_meta, source_path = base @ [''DataBar'', ''Device Name''],
       dest_path = [''TEM'', ''acquisition_device''],
       cast_fn = cast_str py, units = None, conv_fn = None, override = False\<rparr>,
      \<lparr>source_dict = VDict raw_meta, source_path = base @ [''Acquisition'', ''Parameters'', ''High Level'', ''Exposure (s)''],
       dest_path = [''General_EM'', ''exposure_time''],
       cast_fn = cast_float py, units = Some ''SEC'', conv_fn = None, override = False\<rparr>,
      \<lparr>source_dict = VDict raw_meta, source_path = base @ [''DataBar'', ''Exposure Time (s)''],
       dest_path = [''General_EM'', ''exposure_time''],
       cast_fn = cast_float py, units = Some ''SEC'', conv_fn = None, override = False\<rparr>,
      \<lparr>source_dict = VDict raw_meta, source_path = base @ [''GMS Version'', ''Created''],
       dest_path = [''General_EM'', ''acquisition_software_version''],
       cast_fn = cast_str py, units = None, conv_fn = None, override = False\<rparr>]"

text \<open>The whole \<^verbatim>\<open>mapping\<close> that \<^verbatim>\<open>_dm3_general_info\<close> builds, in the order it appends.\<close>

definition dm3_general_mapping :: "builtins \<Rightarrow> pydict \<Rightarrow> MappingElements list" where
  "dm3_general_mapping py raw_meta =
     (let pre_path = get_dm3_tag_pre_path raw_meta;
          base = pre_path @ [''Microscope Info'']
      in dm3_microscope_info_mapping py raw_meta base @
         (case get_val (VDict raw_meta) (base @ [''Voltage'']) (Some (cast_float py)) of
            Some (VFloat voltage) \<Rightarrow> dm3_voltage_mapping py raw_meta base voltage
          | _ \<Rightarrow> []) @
         dm3_session_info_mapping py raw_meta (pre_path @ [''Session Info'']) @
         dm3_meta_data_mapping py raw_meta (pre_path @ [''Meta Data'']) @
         dm3_misc_mapping py raw_meta pre_path)"

text \<open>
  \<^verbatim>\<open>_dm3_general_info\<close> (lines 477 to 660): the software name is set before the rules
  run, with the default unit and override of \<^verbatim>\<open>set_val_units\<close>.
\<close>

definition dm3_general_info :: "builtins \<Rightarrow> pydict \<Rightarrow> pydict \<Rightarrow> pydict" where
  "dm3_general_info py raw_meta em =
     map_dict_values (dm3_general_mapping py raw_meta)
       (if get_val (VDict raw_meta) [''ImageList'', ''TagGroup0'', ''ImageTags''] None \<noteq> None
          then set_val_units em [''General_EM'', ''acquisition_software_name'']
                 (VStr ''DigitalMicrograph'') None False
        else em)"

text \<open>\<^verbatim>\<open>_dm3_eels_info\<close>, the basic EELS rules (lines 695 to 722).\<close>

definition dm3_eels_mapping :: "builtins \<Rightarrow> pydict \<Rightarrow> string list \<Rightarrow> MappingElements list" where
  "dm3_eels_mapping py raw_meta base =
     [\<lparr>source_dict = VDict raw_meta, source_path = base @ [''Acquisition'', ''Exposure (s)''],
       dest_path = [''General_EM'', ''exposure_time''],
       cast_fn = cast_float py, units = Some ''SEC'', conv_fn = None, override = False\<rparr>,
      \<lparr>source_dict = VDict raw_meta, source_path = base @ [''Acquisition'', ''Integration time (s)''],
       dest_path = [''EELS'', ''integration_time''],
       cast_fn = cast_float py, units = Some ''SEC'', conv_fn = None, override = False\<rparr>,
      \<lparr>source_dict = VDict raw_meta, source_path = base @ [''Acquisition'', ''Number of frames''],
       dest_path = [''EELS'', ''number_of_samples''],
       cast_fn = cast_int py, units = Some ''NUM'', conv_fn = None, override = False\<rparr>,
      \<lparr>source_dict = VDict raw_meta, source_path = base @ [''Experimental Conditions'', ''Collection semi-angle (mrad)''],
       dest_path = [''EELS'', ''collection_angle''],
       cast_fn = cast_float py, units = Some ''MilliRAD'', conv_fn = None, override = False\<rparr>,
      \<lparr>source_dict = VDict raw_meta, source_path = base @ [''Experimental Conditions'', ''Convergence semi-angle (mrad)''],
       dest_path = [''General_EM'', ''convergence_angle''],
       cast_fn = cast_float py, units = Some ''MilliRAD'', conv_fn = None, override = False\<rparr>]"

text \<open>
  The cast \<^verbatim>\<open>lambda s: float(s.replace(' mm', ''))\<close>: only a str has \<^verbatim>\<open>replace\<close>.
\<close>

definition cast_aperture_label :: "builtins \<Rightarrow> val \<Rightarrow> val option" where
  "cast_aperture_label py v =
     (case v of VStr s \<Rightarrow> cast_float py (VStr (py_replace '' mm'' [] s)) | _ \<Rightarrow> None)"

text \<open>\<^verbatim>\<open>_dm3_eels_info\<close>, the spectrometer rules (lines 732 to 786).\<close>

definition dm3_spectrometer_mapping :: "builtins \<Rightarrow> pydict \<Rightarrow> string list \<Rightarrow> MappingElements list" where
  "dm3_spectrometer_mapping py raw_meta spect_path =
     [\<lparr>source_dict = VDict raw_meta, source_path = spect_path @ [''Aperture label''],
       dest_path = [''EELS'', ''aperture_size''],
       cast_fn = cast_aperture_label py, units = Some ''MilliM'', conv_fn = None, override = False\<rparr>,
      \<lparr>source_dict = VDict raw_meta, source_path = spect_path @ [''Dispersion (eV/ch)''],
       dest_path = [''EELS'', ''dispersion_per_channel''],
       cast_fn = cast_float py, units = Some ''EV'', conv_fn = None, override = False\<rparr>,
      \<lparr>source_dict = VDict raw_meta, source_path = spect_path @ [''Energy loss (eV)''],
       dest_path = [''EELS'', ''energy_loss_offset''],
       cast_fn = cast_float py, units = Some ''EV'', conv_fn = None, override = False\<rparr>,
      \<lparr>source_dict = VDict raw_meta, source_path = spect_path @ [''Instrument name''],
       dest_path = [''EELS'', ''spectrometer_name''],
       cast_fn = cast_str py, units = None, conv_fn = None, override = False\<rparr>,
      \<lparr>source_dict = VDict raw_meta, source_path = spect_path @ [''Drift tube voltage (V)''],
       dest_path = [''EELS'', ''drift_tube_voltage''],
       cast_fn = cast_float py, units = Some ''V'', conv_fn = None, override = False\<rparr>,
      \<lparr>source_dict = VDict raw_meta, source_path = spect_path @ [''Drift tube enabled''],
       dest_path = [''EELS'', ''drift_tube_enabled''],
       cast_fn = cast_bool py, units = None, conv_fn = None, override = False\<rparr>,
      \<lparr>source_dict = VDict raw_meta, source_path = spect_path @ [''Prism offset (V)''],
       dest_path = [''EELS'', ''prism_shift_voltage''],
       cast_fn = cast_float py, units = Some ''V'', conv_fn = None, override = False\<rparr>,
      \<lparr>source_dict = VDict raw_meta, source_path = spect_path @ [''Prism offset enabled ''],
       dest_path = [''EELS'', ''prism_shift_enabled''],
       cast_fn = cast_bool py, units = None, conv_fn = None, override = False\<rparr>,
      \<lparr>source_dict = VDict raw_meta, source_path = spect_path @ [''Slit width (eV)''],
       dest_path = [''EELS'', ''filter_slit_width''],
       cast_fn = cast_float py, units = Some ''EV'', conv_fn = None, override = False\<rparr>,
      \<lparr>source_dict = VDict raw_meta, source_path = spect_path @ [''Slit inserted''],
       dest_path = [''EELS'', ''filter_slit_inserted''],
       cast_fn = cast_bool py, units = None, conv_fn = None, override = False\<rparr>]"

text \<open>\<^verbatim>\<open>_dm3_eels_info\<close> (lines 691 to 787).\<close>

definition dm3_eels_info :: "builtins \<Rightarrow> pydict \<Rightarrow> pydict \<Rightarrow> pydict" where
  "dm3_eels_info py raw_meta em =
     (let pre_path = get_dm3_tag_pre_path raw_meta;
          base = pre_path @ [''EELS''];
          spect_path =
            (if get_val (VDict raw_meta) (pre_path @ [''EELS'', ''Acquisition'', ''Spectrometer''])
                  None \<noteq> None
               then pre_path @ [''EELS'', ''Acquisition'', ''Spectrometer'']
             else pre_path @ [''EELS Spectrometer''])
      in map_dict_values
           (dm3_eels_mapping py raw_meta base @ dm3_spectrometer_mapping py raw_meta spect_path)
           em)"

text \<open>\<^verbatim>\<open>_dm3_eds_info\<close>, its \<^verbatim>\<open>mapping\<close> (lines 792 to 838).\<close>

definition dm3_eds_mapping :: "builtins \<Rightarrow> pydict \<Rightarrow> string list \<Rightarrow> MappingElements list" where
  "dm3_eds_mapping py raw_meta base =
     [\<lparr>source_dict = VDict raw_meta, source_path = base @ [''Detector Info'', ''Azimuthal angle''],
       dest_path = [''EDS'', ''azimuth_angle''],
       cast_fn = cast_float py, units = Some ''DEG'', conv_fn = None, override = False\<rparr>,
      \<lparr>source_dict = VDict raw_meta, source_path = base @ [''Detector Info'', ''Detector type''],
       dest_path = [''EDS'', ''detector_type''],
       cast_fn = cast_str py, units = None, conv_fn = None, override = False\<rparr>,
      \<lparr>source_dict = VDict raw_meta, source_path = base @ [''Acquisition'', ''Dispersion (eV)''],
       dest_path = [''EDS'', ''dispersion_per_channel''],
       cast_fn = cast_float py, units = Some ''EV'', conv_fn = None, override = False\<rparr>,
      \<lparr>source_dict = VDict raw_meta, source_path = base @ [''Detector Info'', ''Elevation angle''],
       dest_path = [''EDS'', ''elevation_angle''],
       cast_fn = cast_float py, units = Some ''DEG'', conv_fn = None, override = False\<rparr>,
      \<lparr>source_dict = VDict raw_meta, source_path = base @ [''Detector Info'', ''Incidence angle''],
       dest_path = [''EDS'', ''incidence_angle''],
       cast_fn = cast_float py, units = Some ''DEG'', conv_fn = None, override = False\<rparr>,
      \<lparr>source_dict = VDict raw_meta, source_path = base @ [''Live time''],
       dest_path = [''EDS'', ''live_time''],
       cast_fn = cast_float py, units = Some ''SEC'', conv_fn = None, override = False\<rparr>,
      \<lparr>source_dict = VDict raw_meta, source_path = base @ [''Real time''],
       dest_path = [''EDS'', ''real_time''],
       cast_fn = cast_float py, units = Some ''SEC'', conv_fn = None, override = False\<rparr>,
      \<lparr>source_dict = VDict raw_meta, source_path = base @ [''Detector Info'', ''Solid angle''],
       dest_path = [''EDS'', ''solid_angle''],
       cast_fn = cast_float py, units = Some ''SR'', conv_fn = None, override = False\<rparr>,
      \<lparr>source_dict = VDict raw_meta, source_path = base @ [''Detector Info'', ''Stage tilt''],
       dest_path = [''EDS'', ''stage_tilt''],
       cast_fn = cast_float py, units = Some ''DEG'', conv_fn = None, override = False\<rparr>]"

text \<open>\<^verbatim>\<open>_dm3_eds_info\<close> (lines 789 to 840).\<close>

definition dm3_eds_info :: "builtins \<Rightarrow> pydict \<Rightarrow> pydict \<Rightarrow> pydict" where
  "dm3_eds_info py raw_meta em =
     map_dict_values (dm3_eds_mapping py raw_meta (get_dm3_tag_pre_path raw_meta @ [''EDS''])) em"

subsection \<open>The embedded Tecnai block\<close>

text \<open>Sequencing of steps that may raise: the first error ends the method.\<close>

definition then_do :: "error + 'a \<Rightarrow> ('a \<Rightarrow> error + 'b) \<Rightarrow> error + 'b" where
  "then_do r f = (case r of Inl e \<Rightarrow> Inl e | Inr x \<Rightarrow> f x)"

text \<open>An \<^verbatim>\<open>Optional[str]\<close> as a tree value, and its truth value in an \<^verbatim>\<open>if\<close>.\<close>

definition opt_str :: "string option \<Rightarrow> val" where
  "opt_str s = (case s of None \<Rightarrow> VNone | Some t \<Rightarrow> VStr t)"

definition truthy :: "string option \<Rightarrow> bool" where
  "truthy s = (case s of None \<Rightarrow> False | Some t \<Rightarrow> t \<noteq> [])"

text \<open>
  The tuple assignments \<^verbatim>\<open>x, y, z = ...\<close> and \<^verbatim>\<open>alpha, beta = ...\<close>: a list of any other
  length raises ValueError.
\<close>

definition unpack3 :: "'a list \<Rightarrow> error + ('a \<times> 'a \<times> 'a)" where
  "unpack3 xs = (case xs of [x, y, z] \<Rightarrow> Inr (x, y, z) | _ \<Rightarrow> Inl ValueError)"

definition unpack2 :: "'a list \<Rightarrow> error + ('a \<times> 'a)" where
  "unpack2 xs = (case xs of [a, b] \<Rightarrow> Inr (a, b) | _ \<Rightarrow> Inl ValueError)"

text \<open>The patterns of \<^verbatim>\<open>_dm3_tecnai_info\<close>, in the order of the source.\<close>

definition rx_extr_volt :: "atom list" where \<comment> \<open>\<^verbatim>\<open>Extr volt (\d*) V\<close>\<close>
  "rx_extr_volt = lits ''Extr volt '' @ [GOpen, Star digit, GClose] @ lits '' V''"

definition rx_emission :: "atom list" where \<comment> \<open>\<^verbatim>\<open>Emission ([\d|\.]*)uA\<close>\<close>
  "rx_emission = lits ''Emission '' @ [GOpen, Star digit_bar_dot, GClose] @ lits ''uA''"

definition rx_operation_mode :: "atom list" where \<comment> \<open>\<^verbatim>\<open>(.*) Defocus\<close>\<close>
  "rx_operation_mode = [GOpen, Star any_char, GClose] @ lits '' Defocus''"

definition rx_defocus_mag :: "atom list" where \<comment> \<open>\<^verbatim>\<open>Defocus \(um\) (.*) Magn\<close>\<close>
  "rx_defocus_mag = lits ''Defocus (um) '' @ [GOpen, Star any_char, GClose] @ lits '' Magn''"

definition rx_defocus_diff :: "atom list" where \<comment> \<open>\<^verbatim>\<open>Defocus ([\d|\.]*) CL\<close>\<close>
  "rx_defocus_diff = lits ''Defocus '' @ [GOpen, Star digit_bar_dot, GClose] @ lits '' CL''"

definition rx_magn :: "atom list" where \<comment> \<open>\<^verbatim>\<open>Magn (\d*)x\<close>\<close>
  "rx_magn = lits ''Magn '' @ [GOpen, Star digit, GClose] @ lits ''x''"

definition rx_camera_length :: "atom list" where \<comment> \<open>\<^verbatim>\<open>CL (.*)m\<close>\<close>
  "rx_camera_length = lits ''CL '' @ [GOpen, Star any_char, GClose] @ lits ''m''"

definition rx_stage_um :: "atom list" where \<comment> \<open>\<^verbatim>\<open> (-?\d*\.\d*) um\<close>\<close>
  "rx_stage_um =
     lits '' '' @ [GOpen, Opt (CHR ''-''), Star digit, Lit (CHR ''.''), Star digit, GClose] @
     lits '' um''"

definition rx_stage_deg :: "atom list" where \<comment> \<open>\<^verbatim>\<open> (-?\d*\.\d*) deg\<close>\<close>
  "rx_stage_deg =
     lits '' '' @ [GOpen, Opt (CHR ''-''), Star digit, Lit (CHR ''.''), Star digit, GClose] @
     lits '' deg''"

definition rx_dispersion :: "atom list" where \<comment> \<open>\<^verbatim>\<open>(.*)\[eV/Channel\]\<close>\<close>
  "rx_dispersion = [GOpen, Star any_char, GClose] @ lits ''[eV/Channel]''"

definition rx_aperture :: "atom list" where \<comment> \<open>\<^verbatim>\<open>(\d*)mm\<close>\<close>
  "rx_aperture = [GOpen, Star digit, GClose] @ lits ''mm''"

definition rx_ev :: "atom list" where \<comment> \<open>\<^verbatim>\<open>(.*)\[eV\]\<close>\<close>
  "rx_ev = [GOpen, Star any_char, GClose] @ lits ''[eV]''"

text \<open>
  The first \<^verbatim>\<open>mapping\<close> of \<^verbatim>\<open>_dm3_tecnai_info\<close> (lines 900 to 985), as a function of the
  nine texts that its one-entry source dicts hold.
\<close>

definition tecnai_rules ::
  "builtins \<Rightarrow> string option \<Rightarrow> string option \<Rightarrow> string option \<Rightarrow> string option \<Rightarrow>
   string option \<Rightarrow> string option \<Rightarrow> string option \<Rightarrow> string option \<Rightarrow> string option \<Rightarrow>
   MappingElements list" where
  "tecnai_rules py microscope_name extractor_voltage emission_current operation_mode
     defocus_mag defocus_diff magnification camera_length spot_size =
     [\<lparr>source_dict = VDict [(''Microscope_Name'', opt_str microscope_name)], source_path = [''Microscope_Name''],
       dest_path = [''General_EM'', ''microscope_name''],
       cast_fn = cast_str py, units = None, conv_fn = None, override = True\<rparr>,
      \<lparr>source_dict = VDict [(''Extractor_Voltage'', opt_str extractor_voltage)], source_path = [''Extractor_Voltage''],
       dest_path = [''TEM'', ''extractor_voltage''],
       cast_fn = cast_int py, units = Some ''V'', conv_fn = None, override = True\<rparr>,
      \<lparr>source_dict = VDict [(''Emission_Current'', opt_str emission_current)], source_path = [''Emission_Current''],
       dest_path = [''General_EM'', ''emission_current''],
       cast_fn = cast_float py, units = Some ''MicroA'', conv_fn = None, override = True\<rparr>,
      \<lparr>source_dict = VDict [(''Operation_Mode'', opt_str operation_mode)], source_path = [''Operation_Mode''],
       dest_path = [''TEM'', ''operation_mode''],
       cast_fn = cast_str py, units = None, conv_fn = None, override = True\<rparr>,
      \<lparr>source_dict = VDict [(''Defocus'', opt_str defocus_mag)], source_path = [''Defocus''],
       dest_path = [''TEM'', ''defocus''],
       cast_fn = cast_float py, units = Some ''MicroM'', conv_fn = None, override = True\<rparr>,
      \<lparr>source_dict = VDict [(''Defocus'', opt_str defocus_diff)], source_path = [''Defocus''],
       dest_path = [''TEM'', ''defocus''],
       cast_fn = cast_float py, units = Some ''MicroM'', conv_fn = None, override = True\<rparr>,
      \<lparr>source_dict = VDict [(''Magnification'', opt_str magnification)], source_path = [''Magnification''],
       dest_path = [''General_EM'', ''magnification_indicated''],
       cast_fn = cast_int py, units = Some ''UNITLESS'', conv_fn = None, override = True\<rparr>,
      \<lparr>source_dict = VDict [(''Camera_Length'', opt_str camera_length)], source_path = [''Camera_Length''],
       dest_path = [''TEM'', ''camera_length''],
       cast_fn = cast_float py, units = Some ''MilliM'', conv_fn = Some (on_float (\<lambda>x. x * 1000)), override = True\<rparr>,
      \<lparr>source_dict = VDict [(''Spot_Size'', opt_str spot_size)], source_path = [''Spot_Size''],
       dest_path = [''TEM'', ''spot_size''],
       cast_fn = cast_int py, units = Some ''UNITLESS'', conv_fn = None, override = True\<rparr>]"

text \<open>
  The construction of that list: the list display evaluates its entries in order, and
  each \<^verbatim>\<open>__extract_val\<close> is handed the answer of \<^verbatim>\<open>__find_val\<close> as it is.
\<close>

definition tecnai_mapping :: "builtins \<Rightarrow> string list \<Rightarrow> error + MappingElements list" where
  "tecnai_mapping py tecnai_info =
     then_do (extract_val rx_extr_volt (find_val ''Extr volt '' tecnai_info)) (\<lambda>extractor_voltage.
     then_do (extract_val rx_emission (find_val ''Emission '' tecnai_info)) (\<lambda>emission_current.
     then_do (extract_val rx_operation_mode (find_val ''Mode '' tecnai_info)) (\<lambda>operation_mode.
     then_do (extract_val rx_defocus_mag (find_val ''Mode '' tecnai_info)) (\<lambda>defocus_mag.
     then_do (extract_val rx_defocus_diff (find_val ''Mode '' tecnai_info)) (\<lambda>defocus_diff.
     then_do (extract_val rx_magn (find_val ''Mode '' tecnai_info)) (\<lambda>magnification.
     then_do (extract_val rx_camera_length (find_val ''Mode '' tecnai_info)) (\<lambda>camera_length.
       Inr (tecnai_rules py (find_val ''Microscope '' tecnai_info) extractor_voltage
              emission_current operation_mode defocus_mag defocus_diff magnification
              camera_length (find_val ''Spot '' tecnai_info)))))))))"

text \<open>The stage rules (lines 991 to 1017) over the dict \<^verbatim>\<open>stage\<close>.\<close>

definition tecnai_stage_rules :: "builtins \<Rightarrow> val \<Rightarrow> MappingElements list" where
  "tecnai_stage_rules py stage =
     [\<lparr>source_dict = stage, source_path = [''x''],
       dest_path = [''General_EM'', ''stage_position'', ''x''],
       cast_fn = cast_float py, units = Some ''MicroM'', conv_fn = None, override = True\<rparr>,
      \<lparr>source_dict = stage, source_path = [''y''],
       dest_path = [''General_EM'', ''stage_position'', ''y''],
       cast_fn = cast_float py, units = Some ''MicroM'', conv_fn = None, override = True\<rparr>,
      \<lparr>source_dict = stage, source_path = [''z''],
       dest_path = [''General_EM'', ''stage_position'', ''z''],
       cast_fn = cast_float py, units = Some ''MicroM'', conv_fn = None, override = True\<rparr>,
      \<lparr>source_dict = stage, source_path = [''a''],
       dest_path = [''General_EM'', ''stage_position'', ''tilt_alpha''],
       cast_fn = cast_float py, units = Some ''DEG'', conv_fn = None, override = True\<rparr>,
      \<lparr>source_dict = stage, source_path = [''b''],
       dest_path = [''General_EM'', ''stage_position'', ''tilt_beta''],
       cast_fn = cast_float py, units = Some ''DEG'', conv_fn = None, override = True\<rparr>]"

text \<open>
  Lines 986 to 1017: \<^verbatim>\<open>if stage_vals:\<close> passes for a str that is not empty; the composite
  line must then give exactly three micrometre values and two degree values.
\<close>

definition tecnai_stage_mapping :: "builtins \<Rightarrow> string list \<Rightarrow> error + MappingElements list" where
  "tecnai_stage_mapping py tecnai_info =
     (case find_val ''Stage'' tecnai_info of
        None \<Rightarrow> Inr []
      | Some stage_vals \<Rightarrow>
          if stage_vals = [] then Inr []
          else then_do (unpack3 (rx_findall rx_stage_um stage_vals)) (\<lambda>(x, y, z).
               then_do (unpack2 (rx_findall rx_stage_deg stage_vals)) (\<lambda>(alpha, beta).
                 Inr (tecnai_stage_rules py
                        (VDict [(''x'', VStr x), (''y'', VStr y), (''z'', VStr z),
                                (''a'', VStr alpha), (''b'', VStr beta)])))))"

text \<open>The filter rules (lines 1039 to 1071) over \<^verbatim>\<open>filter_dict\<close>.\<close>

definition tecnai_filter_rules :: "builtins \<Rightarrow> val \<Rightarrow> MappingElements list" where
  "tecnai_filter_rules py filter_dict =
     [\<lparr>source_dict = filter_dict, source_path = [''Mode''],
       dest_path = [''EELS'', ''spectrometer_mode''],
       cast_fn = cast_str py, units = None, conv_fn = None, override = True\<rparr>,
      \<lparr>source_dict = filter_dict, source_path = [''Dispersion''],
       dest_path = [''EELS'', ''dispersion_per_channel''],
       cast_fn = cast_float py, units = Some ''EV'', conv_fn = None, override = True\<rparr>,
      \<lparr>source_dict = filter_dict, source_path = [''Aperture''],
       dest_path = [''EELS'', ''aperture_size''],
       cast_fn = cast_float py, units = Some ''MilliM'', conv_fn = None, override = True\<rparr>,
      \<lparr>source_dict = filter_dict, source_path = [''Drift''],
       dest_path = [''EELS'', ''drift_tube_energy''],
       cast_fn = cast_float py, units = Some ''EV'', conv_fn = None, override = True\<rparr>,
      \<lparr>source_dict = filter_dict, source_path = [''Prism''],
       dest_path = [''EELS'', ''prism_shift_energy''],
       cast_fn = cast_float py, units = Some ''EV'', conv_fn = None, override = True\<rparr>,
      \<lparr>source_dict = filter_dict, source_path = [''TotalLoss''],
       dest_path = [''EELS'', ''total_energy_loss''],
       cast_fn = cast_float py, units = Some ''EV'', conv_fn = None, override = True\<rparr>]"

text \<open>Lines 1019 to 1071: \<^verbatim>\<open>filter_dict\<close> is built entry by entry, in the order written.\<close>

definition tecnai_filter_mapping :: "builtins \<Rightarrow> string list \<Rightarrow> error + MappingElements list" where
  "tecnai_filter_mapping py tecnai_info =
     (if truthy (find_val ''Filter related settings'' tecnai_info)
        then then_do (extract_val rx_dispersion (find_val ''Selected dispersion: '' tecnai_info)) (\<lambda>dispersion.
             then_do (extract_val rx_aperture (find_val ''Selected aperture: '' tecnai_info)) (\<lambda>aperture.
             then_do (extract_val rx_ev (find_val ''Prism shift: '' tecnai_info)) (\<lambda>prism.
             then_do (extract_val rx_ev (find_val ''Drift tube: '' tecnai_info)) (\<lambda>drift.
             then_do (extract_val rx_ev (find_val ''Total energy loss: '' tecnai_info)) (\<lambda>total_loss.
               Inr (tecnai_filter_rules py
                      (VDict [(''Mode'', opt_str (find_val ''Mode: '' tecnai_info)),
                              (''Dispersion'', opt_str dispersion),
                              (''Aperture'', opt_str aperture),
                              (''Prism'', opt_str prism),
                              (''Drift'', opt_str drift),
                              (''TotalLoss'', opt_str total_loss)])))))))
      else Inr [])"

text \<open>\<^verbatim>\<open>path_to_tecnai\<close> (lines 888 and 889).\<close>

definition path_to_tecnai :: "string list" where
  "path_to_tecnai = [''ImageList'', ''TagGroup0'', ''ImageTags'', ''Tecnai'', ''Microscope Info'']"

text \<open>
  \<^verbatim>\<open>_dm3_tecnai_info\<close> (lines 845 to 1073). The block is read with \<^verbatim>\<open>get_val\<close>; \<^verbatim>\<open>split\<close> is
  a method of str only, so any other value raises AttributeError.
\<close>

definition dm3_tecnai_info :: "string \<Rightarrow> builtins \<Rightarrow> pydict \<Rightarrow> pydict \<Rightarrow> error + pydict" where
  "dm3_tecnai_info delimiter py raw_meta em =
     (case get_val (VDict raw_meta) path_to_tecnai None of
        None \<Rightarrow> Inr em
      | Some (VStr blob) \<Rightarrow>
          then_do (py_split blob delimiter) (\<lambda>tecnai_info.
          then_do (tecnai_mapping py tecnai_info) (\<lambda>mapping.
          then_do (tecnai_stage_mapping py tecnai_info) (\<lambda>stage_mapping.
          then_do (tecnai_filter_mapping py tecnai_info) (\<lambda>filter_mapping.
            Inr (map_dict_values (mapping @ stage_mapping @ filter_mapping) em)))))
      | Some _ \<Rightarrow> Inl AttributeError)"

text \<open>The default \<^verbatim>\<open>delimiter\<close>, U+2028 LINE SEPARATOR, in UTF-8.\<close>

definition line_separator :: string where
  "line_separator = [CHR 0xE2, CHR 0x80, CHR 0xA8]"

section \<open>The parse of one file\<close>

text \<open>
  Lines 165 to 173: a subscript chain in \<^verbatim>\<open>try\<close>, with \<^verbatim>\<open>{}\<close> for any exception.
\<close>

definition subscripts_or_empty :: "val \<Rightarrow> string list \<Rightarrow> val" where
  "subscripts_or_empty v ks = (case subscripts v ks of Inl e \<Rightarrow> VDict [] | Inr w \<Rightarrow> w)"

text \<open>
  \<^verbatim>\<open>cast(obj[k1]...[kn])\<close> inside a \<^verbatim>\<open>try\<close>: \<open>None\<close> when the subscripts or the cast raise.
\<close>

definition try_cast :: "(val \<Rightarrow> val option) \<Rightarrow> val \<Rightarrow> string list \<Rightarrow> val option" where
  "try_cast cast v ks = (case subscripts v ks of Inl e \<Rightarrow> None | Inr w \<Rightarrow> cast w)"

text \<open>
  Lines 163 to 201, "Non-HS data": four values are stored directly under keys of
  \<^verbatim>\<open>self.em\<close>, each in a \<^verbatim>\<open>try\<close> that passes on any exception; two of them have a second
  source in the \<^verbatim>\<open>except\<close> branch.
\<close>

definition non_hs_data :: "builtins \<Rightarrow> pydict \<Rightarrow> pydict \<Rightarrow> pydict" where
  "non_hs_data py raw_meta em =
     (let micro_info = subscripts_or_empty (VDict raw_meta)
                         [''ImageList'', ''TagGroup0'', ''ImageTags'', ''Microscope Info''];
          exp_desc = subscripts_or_empty (VDict raw_meta)
                       [''ObjectInfo'', ''ExperimentalDescription''];
          em1 = (case try_cast (cast_float py) micro_info
                        [''Emission Current ('' @ [CHR 0xC2, CHR 0xB5] @ ''A)''] of
                   Some v \<Rightarrow> AList.update ''emission_current'' v em
                 | None \<Rightarrow>
                     (case try_cast (cast_float py) exp_desc [''Emission_uA''] of
                        Some v \<Rightarrow> AList.update ''emission_current'' v em
                      | None \<Rightarrow> em));
          em2 = (case try_cast (cast_str py) micro_info [''Operation Mode''] of
                   Some v \<Rightarrow> AList.update ''operation_mode'' v em1
                 | None \<Rightarrow> em1);
          em3 = (case try_cast (cast_str py) (VDict raw_meta)
                        [''ImageList'', ''TagGroup0'', ''ImageTags'', ''Session Info'',
                         ''Microscope''] of
                   Some v \<Rightarrow> AList.update ''microscope'' v em2
                 | None \<Rightarrow>
                     (case try_cast (cast_str py) micro_info [''Name''] of
                        Some v \<Rightarrow> AList.update ''microscope'' v em2
                      | None \<Rightarrow> em2))
      in (case try_cast (cast_int py) exp_desc [''Spot size''] of
            Some v \<Rightarrow> AList.update ''spot_size'' v em3
          | None \<Rightarrow> em3))"

text \<open>Lines 145 to 148: \<^verbatim>\<open>self.em\<close> before the stages run.\<close>

definition sections :: "string list" where
  "sections = [''General'', ''General_EM'', ''TEM'', ''SEM'', ''EDS'', ''EELS'']"

definition initial_em :: "pydict \<Rightarrow> pydict" where
  "initial_em raw_meta =
     fold (\<lambda>s em. AList.update s (VDict []) em) sections
       (AList.update ''raw_metadata'' (VDict raw_meta) [])"

text \<open>
  Lines 150 to 201: the processors in the order they are called; \<^verbatim>\<open>_dm3_spectrum_image_info\<close>,
  \<^verbatim>\<open>_tia_info\<close> and \<^verbatim>\<open>_tiff_info\<close> are \<^verbatim>\<open>pass\<close>. The answer is \<^verbatim>\<open>self.em\<close> before the
  empty values are removed.
\<close>

definition extract_em :: "builtins \<Rightarrow> pydict \<Rightarrow> pydict \<Rightarrow> error + pydict" where
  "extract_em py meta raw_meta =
     (case process_hs_data py meta (initial_em raw_meta) of
        Inl e \<Rightarrow> Inl e
      | Inr em1 \<Rightarrow>
          (case dm3_tecnai_info line_separator py raw_meta
                  (dm3_eels_info py raw_meta (dm3_general_info py raw_meta em1)) of
             Inl e \<Rightarrow> Inl e
           | Inr em2 \<Rightarrow> Inr (non_hs_data py raw_meta (dm3_eds_info py raw_meta em2))))"

text \<open>Lines 228 to 234: a branch enters the record only when it is not empty.\<close>

definition assemble :: "pydict \<Rightarrow> pydict \<Rightarrow> pydict" where
  "assemble em img =
     (let record1 = (if em \<noteq> [] then AList.update ''electron_microscopy'' (VDict em) [] else [])
      in if img \<noteq> [] then AList.update ''image'' (VDict img) record1 else record1)"

text \<open>
  \<^verbatim>\<open>_parse_file\<close> (lines 131 to 234) from the two dictionaries that HyperSpy's loader gives
  for the (first) dataset: \<open>meta\<close> is \<^verbatim>\<open>hs_data.metadata.as_dictionary()\<close> and \<open>raw_meta\<close> is
  \<^verbatim>\<open>hs_data.original_metadata.as_dictionary()\<close>. An \<open>Inl\<close> is an exception that leaves the
  method.
\<close>

definition parse_file :: "builtins \<Rightarrow> pydict \<Rightarrow> pydict \<Rightarrow> error + pydict" where
  "parse_file py meta raw_meta =
     (case extract_em py meta raw_meta of
        Inl e \<Rightarrow> Inl e
      | Inr em \<Rightarrow> Inr (assemble (remove_empty em) (image_info py raw_meta)))"

section \<open>A runtime for concrete inputs\<close>

text \<open>
  A fragment of CPython's conversions, for evaluating the parser on concrete trees. It
  covers \<^verbatim>\<open>None\<close>, bools, ints, floats and strs in plain decimal notation (an optional sign,
  digits, at most one point); where it answers, it answers as CPython does. It does not
  cover exponents, blanks, underscores, digits outside ASCII, the text of a float, list or
  dict, or the list of a str: there it answers \<open>None\<close>, and no evaluation below goes there.
\<close>

definition digit_value :: "char \<Rightarrow> nat" where
  "digit_value c = of_char c - 48"

definition nat_of_digits :: "string \<Rightarrow> nat" where
  "nat_of_digits s = fold (\<lambda>c n. 10 * n + digit_value c) s 0"

definition split_sign :: "string \<Rightarrow> bool \<times> string" where
  "split_sign s =
     (case s of
        [] \<Rightarrow> (False, [])
      | c # r \<Rightarrow> if c = CHR ''-'' then (True, r) else if c = CHR ''+'' then (False, r) else (False, s))"

definition parse_int :: "string \<Rightarrow> int option" where
  "parse_int s =
     (case split_sign s of
        (neg, ds) \<Rightarrow>
          if ds \<noteq> [] \<and> list_all digit ds
            then Some (if neg then - int (nat_of_digits ds) else int (nat_of_digits ds))
          else None)"

definition parse_float :: "string \<Rightarrow> real option" where
  "parse_float s =
     (case split_sign s of
        (neg, ds) \<Rightarrow>
          (let ip = takeWhile (\<lambda>c. c \<noteq> CHR ''.'') ds;
               fp = drop 1 (dropWhile (\<lambda>c. c \<noteq> CHR ''.'') ds)
           in if ip @ fp \<noteq> [] \<and> list_all digit ip \<and> list_all digit fp
                then Some ((if neg then - 1 else 1) * real (nat_of_digits (ip @ fp)) / 10 ^ length fp)
              else None))"

function show_nat :: "nat \<Rightarrow> string" where
  "show_nat n =
     (if n < 10 then [char_of (48 + n)] else show_nat (n div 10) @ [char_of (48 + n mod 10)])"
  by pat_completeness auto
termination
  by (relation "measure id") auto

fun std_str :: "val \<Rightarrow> string option" where
  "std_str (VStr s) = Some s"
| "std_str VNone = Some ''None''"
| "std_str (VBool b) = Some (if b then ''True'' else ''False'')"
| "std_str (VInt i) = Some (if i < 0 then CHR ''-'' # show_nat (nat (- i)) else show_nat (nat i))"
| "std_str _ = None"

fun std_float :: "val \<Rightarrow> real option" where
  "std_float (VFloat x) = Some x"
| "std_float (VInt i) = Some (real_of_int i)"
| "std_float (VBool b) = Some (if b then 1 else 0)"
| "std_float (VStr s) = parse_float s"
| "std_float _ = None"

fun std_int :: "val \<Rightarrow> int option" where
  "std_int (VInt i) = Some i"
| "std_int (VBool b) = Some (if b then 1 else 0)"
| "std_int (VFloat x) = Some (if x \<ge> 0 then \<lfloor>x\<rfloor> else \<lceil>x\<rceil>)"
| "std_int (VStr s) = parse_int s"
| "std_int _ = None"

fun std_bool :: "val \<Rightarrow> bool option" where
  "std_bool VNone = Some False"
| "std_bool (VBool b) = Some b"
| "std_bool (VInt i) = Some (i \<noteq> 0)"
| "std_bool (VFloat x) = Some (x \<noteq> 0)"
| "std_bool (VStr s) = Some (s \<noteq> [])"
| "std_bool (VList l) = Some (l \<noteq> [])"
| "std_bool (VDict d) = Some (d \<noteq> [])"

fun std_list :: "val \<Rightarrow> val list option" where
  "std_list (VList l) = Some l"
| "std_list (VDict d) = Some (map (\<lambda>(k, v). VStr k) d)"
| "std_list _ = None"

definition cpython :: builtins where
  "cpython = \<lparr>py_str = std_str, py_float = std_float, py_int = std_int,
              py_bool = std_bool, py_list = std_list\<rparr>"

section \<open>Auxiliary notions for the properties\<close>

text \<open>A tree that contains an empty value (\<^verbatim>\<open>None\<close>, \<^verbatim>\<open>[]\<close> or \<^verbatim>\<open>{}\<close>) at any depth.\<close>

fun has_empty :: "val \<Rightarrow> bool" where
  "has_empty VNone = True"
| "has_empty (VList xs) = (xs = [] \<or> list_ex has_empty xs)"
| "has_empty (VDict kvs) = (kvs = [] \<or> list_ex (\<lambda>kv. has_empty (snd kv)) kvs)"
| "has_empty _ = False"

text \<open>The keys that the removal loop pops: those of the items with an empty value.\<close>

definition empty_keys :: "pydict \<Rightarrow> string set" where
  "empty_keys xs = set (map fst (filter (\<lambda>kv. is_empty_value (snd kv)) xs))"

text \<open>
  A path that \<open>set_path\<close> can write: it is not empty and every value above its leaf is
  missing or a dict.
\<close>

fun writable :: "pydict \<Rightarrow> string list \<Rightarrow> bool" where
  "writable d [] = False"
| "writable d [k] = True"
| "writable d (k # k' # ks) =
     (case map_of d k of
        None \<Rightarrow> True
      | Some (VDict sub) \<Rightarrow> writable sub (k' # ks)
      | Some _ \<Rightarrow> False)"

text \<open>The key holds a dict (as each section of \<^verbatim>\<open>self.em\<close> does).\<close>

definition dict_at :: "pydict \<Rightarrow> string \<Rightarrow> bool" where
  "dict_at d k = (case map_of d k of Some (VDict s) \<Rightarrow> True | _ \<Rightarrow> False)"

text \<open>Two paths of which neither leads through the other.\<close>

definition incomparable :: "string list \<Rightarrow> string list \<Rightarrow> bool" where
  "incomparable q p = (\<not> prefix q p \<and> \<not> prefix p q)"

text \<open>
  The leaf that a rule writes when it fires: its source value read, cast, converted and
  paired with the unit; \<open>None\<close> when the value is not found or the cast fails.
\<close>

definition rule_value :: "MappingElements \<Rightarrow> val option" where
  "rule_value m =
     (case get_val (source_dict m) (source_path m) None of
        None \<Rightarrow> None
      | Some v \<Rightarrow>
          (case cast_fn m v of
             None \<Rightarrow> None
           | Some c \<Rightarrow> Some (with_unit (case conv_fn m of None \<Rightarrow> c | Some f \<Rightarrow> f c) (units m))))"

text \<open>
  What lines 569 to 579 write for a voltage \<open>v\<close>: the unit and the conversion both test
  \<^verbatim>\<open>voltage >= 1000\<close>.
\<close>

definition voltage_leaf :: "real \<Rightarrow> val" where
  "voltage_leaf v =
     (if v \<ge> 1000 then VDict [(''value'', VFloat (v / 1000)), (''unit'', VStr ''KiloEV'')]
      else VDict [(''value'', VFloat v), (''unit'', VStr ''EV'')])"

text \<open>
  The leaf that a defocus rule (lines 938 to 955) gives on the text of the "Mode " line
  for its pattern: the group of the first match, cast by \<^verbatim>\<open>float\<close>, in micrometres.
\<close>

definition defocus_leaf :: "builtins \<Rightarrow> atom list \<Rightarrow> string \<Rightarrow> val option" where
  "defocus_leaf py rx line =
     (case rx_search rx line of
        None \<Rightarrow> None
      | Some (g, rest) \<Rightarrow>
          map_option (\<lambda>v. VDict [(''value'', VFloat v), (''unit'', VStr ''MicroM'')])
            (py_float py (VStr g)))"

text \<open>
  The destination paths of each stage. A rule's \<^verbatim>\<open>dest_path\<close> is a literal in the source, so
  the lists are read off the rule lists at arbitrary arguments.
\<close>

definition hs_dest_paths :: "string list list" where
  "hs_dest_paths =
     map dest_path
       (hs_instrument_mapping cpython VNone @ hs_detector_type_mapping cpython VNone @
        hs_detector_node_mapping cpython VNone @ hs_general_mapping cpython VNone)"

definition general_dest_paths :: "string list list" where
  "general_dest_paths =
     [''General_EM'', ''acquisition_software_name''] #
     map dest_path
       (dm3_microscope_info_mapping cpython [] [] @ dm3_voltage_mapping cpython [] [] 0 @
        dm3_session_info_mapping cpython [] [] @ dm3_meta_data_mapping cpython [] [] @
        dm3_misc_mapping cpython [] [])"

definition eels_dest_paths :: "string list list" where
  "eels_dest_paths =
     map dest_path (dm3_eels_mapping cpython [] [] @ dm3_spectrometer_mapping cpython [] [])"

definition eds_dest_paths :: "string list list" where
  "eds_dest_paths = map dest_path (dm3_eds_mapping cpython [] [])"

definition tecnai_dest_paths :: "string list list" where
  "tecnai_dest_paths =
     map dest_path
       (tecnai_rules cpython None None None None None None None None None @
        tecnai_stage_rules cpython VNone @ tecnai_filter_rules cpython VNone)"

text \<open>The keys that lines 175 to 201 assign directly in \<^verbatim>\<open>self.em\<close>.\<close>

definition non_hs_dest_paths :: "string list list" where
  "non_hs_dest_paths = [[''emission_current''], [''operation_mode''], [''microscope''], [''spot_size'']]"

text \<open>Every path that \<^verbatim>\<open>_parse_file\<close> may write in \<^verbatim>\<open>self.em\<close> after line 148.\<close>

definition written_paths :: "string list list" where
  "written_paths = hs_dest_paths @ general_dest_paths @ eels_dest_paths @ tecnai_dest_paths @
                   eds_dest_paths @ non_hs_dest_paths"

text \<open>The four fields of lines 175 to 201, as a list of keys.\<close>

definition top_level_fields :: "string list" where
  "top_level_fields = [''emission_current'', ''operation_mode'', ''microscope'', ''spot_size'']"

section \<open>Sample trees\<close>

text \<open>The structured metadata of the end-to-end example of the specification.\<close>

definition sample_meta :: pydict where
  "sample_meta =
     [(''Acquisition_instrument'',
       VDict [(''TEM'', VDict [(''beam_energy'', VFloat 200), (''microscope'', VStr ''JEOL'')])])]"

text \<open>A raw tree that holds nothing but the dimension list of the image data.\<close>

definition raw_with_dimensions :: "pydict \<Rightarrow> pydict" where
  "raw_with_dimensions dims =
     [(''ImageList'', VDict [(''TagGroup0'', VDict [(''ImageData'', VDict [(''Dimensions'', VDict dims)])])])]"

text \<open>A raw tree with the given DigitalMicrograph image tags.\<close>

definition raw_with_image_tags :: "pydict \<Rightarrow> pydict" where
  "raw_with_image_tags tags =
     [(''ImageList'', VDict [(''TagGroup0'', VDict [(''ImageTags'', VDict tags)])])]"

text \<open>A raw tree with an exposure time at both of its tag locations.\<close>

definition raw_exposure :: pydict where
  "raw_exposure =
     raw_with_image_tags
       [(''Acquisition'', VDict [(''Parameters'', VDict [(''High Level'',
            VDict [(''Exposure (s)'', VFloat (1 / 2))])])]),
        (''DataBar'', VDict [(''Exposure Time (s)'', VFloat 2)])]"

text \<open>Field lines joined by a separator, and a raw tree with such a Tecnai block.\<close>

fun join_lines :: "string \<Rightarrow> string list \<Rightarrow> string" where
  "join_lines sep [] = []"
| "join_lines sep [x] = x"
| "join_lines sep (x # y # ys) = x @ sep @ join_lines sep (y # ys)"

definition raw_with_tecnai :: "string list \<Rightarrow> pydict" where
  "raw_with_tecnai ls =
     raw_with_image_tags [(''Tecnai'', VDict [(''Microscope Info'', VStr (join_lines line_separator ls))])]"

text \<open>
  Two blocks: on the "Mode " line of the first only the imaging-mode defocus pattern
  matches, on that of the second both defocus patterns match.
\<close>

definition imaging_lines :: "string list" where
  "imaging_lines = [''Extr volt 4 V'', ''Emission 1uA'', ''Mode TEM Defocus (um) 1.5 Magn 50x'']"

definition both_lines :: "string list" where
  "both_lines = [''Extr volt 4 V'', ''Emission 1uA'',
                 ''Mode TEM Defocus (um) 1.5 Magn 50x Defocus 2.5 CL 1m'']"

chapter \<open>Properties\<close>

section \<open>Removal of empty values\<close>

lemma in_empty_keys: "k \<in> empty_keys xs \<longleftrightarrow> (\<exists>v. (k, v) \<in> set xs \<and> is_empty_value v)"
  by (force simp: empty_keys_def)

text \<open>The loop over the snapshot \<open>xs\<close> leaves of \<open>d\<close> the items whose key it did not pop.\<close>

lemma fold_pop_filter:
  "fold (\<lambda>(key, v) d. if is_empty_value v then AList.delete key d else d) xs d
     = filter (\<lambda>kv. fst kv \<notin> empty_keys xs) d"
proof (induction xs arbitrary: d)
  case Nil
  show ?case by (simp add: empty_keys_def)
next
  case (Cons a xs)
  obtain k v where a: "a = (k, v)" by (cases a)
  have ek: "empty_keys ((k, v) # xs) =
              (if is_empty_value v then insert k (empty_keys xs) else empty_keys xs)"
    by (auto simp: in_empty_keys)
  show ?case
    using Cons.IH by (auto simp: a ek AList.delete_eq intro!: filter_cong)
qed

lemma remove_empty_filter: "remove_empty em = filter (\<lambda>kv. fst kv \<notin> empty_keys em) em"
  by (simp add: remove_empty_def fold_pop_filter)

lemma empty_keys_remove_empty: "empty_keys (remove_empty em) = {}"
  by (auto simp: remove_empty_filter in_empty_keys)

text \<open>On a dict (no key twice) the loop is a filter on the values.\<close>

lemma remove_empty_distinct:
  assumes "distinct (map fst em)"
  shows "remove_empty em = filter (\<lambda>(k, v). \<not> is_empty_value v) em"
proof -
  have "fst kv \<notin> empty_keys em \<longleftrightarrow> \<not> is_empty_value (snd kv)" if "kv \<in> set em" for kv
  proof
    assume "fst kv \<notin> empty_keys em"
    have "(fst kv, snd kv) \<in> set em" using that by simp
    with \<open>fst kv \<notin> empty_keys em\<close> show "\<not> is_empty_value (snd kv)"
      unfolding in_empty_keys by blast
  next
    assume ne: "\<not> is_empty_value (snd kv)"
    show "fst kv \<notin> empty_keys em"
    proof
      assume "fst kv \<in> empty_keys em"
      then obtain v' where v': "(fst kv, v') \<in> set em" "is_empty_value v'"
        by (auto simp: in_empty_keys)
      from that have "(fst kv, snd kv) \<in> set em" by simp
      with assms v'(1) have "v' = snd kv" by (rule eq_key_imp_eq_value)
      with v' ne show False by simp
    qed
  qed
  then show ?thesis
    unfolding remove_empty_filter by (intro filter_cong) (auto simp: case_prod_beta)
qed

lemma is_empty_has_empty: "is_empty_value v \<Longrightarrow> has_empty v"
  by (auto simp: is_empty_value_def)

lemma no_empty_top: "\<not> has_empty (VDict em) \<Longrightarrow> empty_keys em = {}"
  by (fastforce simp: in_empty_keys list_ex_iff dest: is_empty_has_empty)

text \<open>
  Claim C9. Pruning is idempotent: removing the empty values a second time changes
  nothing, and a tree that contains no empty value at any depth is left as it is.
\<close>

theorem pruning_idempotent:
  "remove_empty (remove_empty em) = remove_empty em
   \<and> (\<not> has_empty (VDict em) \<longrightarrow> remove_empty em = em)"
proof
  show "remove_empty (remove_empty em) = remove_empty em"
    using remove_empty_filter [of "remove_empty em"] by (simp add: empty_keys_remove_empty)
  show "\<not> has_empty (VDict em) \<longrightarrow> remove_empty em = em"
    by (simp add: remove_empty_filter no_empty_top)
qed

theorem pruning_idempotent_witness:
  "remove_empty (remove_empty [(''General'', VDict []), (''TEM'', VDict [(''spot_size'', VInt 3)])])
     = remove_empty [(''General'', VDict []), (''TEM'', VDict [(''spot_size'', VInt 3)])]
   \<and> \<not> has_empty (VDict [(''TEM'', VDict [(''spot_size'', VInt 3)])])
   \<and> remove_empty [(''TEM'', VDict [(''spot_size'', VInt 3)])]
       = [(''TEM'', VDict [(''spot_size'', VInt 3)])]"
  using pruning_idempotent [of "[(''General'', VDict []), (''TEM'', VDict [(''spot_size'', VInt 3)])]"]
        pruning_idempotent [of "[(''TEM'', VDict [(''spot_size'', VInt 3)])]"]
  by simp

section \<open>The assembled record\<close>

lemma then_do_Inr: "then_do r f = Inr y \<longleftrightarrow> (\<exists>x. r = Inr x \<and> f x = Inr y)"
  by (cases r) (simp_all add: then_do_def)

lemma then_do_Inl: "then_do r f = Inl e \<longleftrightarrow> r = Inl e \<or> (\<exists>x. r = Inr x \<and> f x = Inl e)"
  by (cases r) (simp_all add: then_do_def)

lemma parse_file_Inr:
  "parse_file py meta raw_meta = Inr rec \<longleftrightarrow>
     (\<exists>em. extract_em py meta raw_meta = Inr em
          \<and> rec = assemble (remove_empty em) (image_info py raw_meta))"
  by (auto simp: parse_file_def split: sum.splits)

lemma parse_file_Inl: "parse_file py meta raw_meta = Inl e \<longleftrightarrow> extract_em py meta raw_meta = Inl e"
  by (simp add: parse_file_def split: sum.splits)

lemma map_of_assemble_image:
  "map_of (assemble em img) ''image'' = (if img \<noteq> [] then Some (VDict img) else None)"
  by (simp add: assemble_def Let_def update_conv')

lemma map_of_assemble_em:
  "map_of (assemble em img) ''electron_microscopy'' = (if em \<noteq> [] then Some (VDict em) else None)"
  by (simp add: assemble_def Let_def update_conv')

lemma reorder_shape_simps:
  "reorder_shape (w # h # rest) = h # w # rest"
  "reorder_shape [w] = [w]"
  "reorder_shape [] = []"
  by (simp_all add: reorder_shape_def)

lemma image_info_cases:
  "image_info py raw_meta =
     (case derive_shape py raw_meta of
        Inl e \<Rightarrow> []
      | Inr shape \<Rightarrow> if shape = [] then [] else [(''shape'', VList (map VInt shape))])"
  by (simp add: image_info_def split: sum.splits)

lemma derive_shape_dims:
  assumes "subscripts (VDict raw_meta) dimensions_path = Inr (VDict dims)"
  shows "derive_shape py raw_meta =
           (case those (map (py_int py) (map snd dims)) of
              None \<Rightarrow> Inl ConversionError
            | Some base_shape \<Rightarrow> Inr (reorder_shape base_shape))"
  using assms by (simp add: derive_shape_def)

lemma those_None: "None \<in> set xs \<Longrightarrow> those xs = None"
  by (induction xs) (auto split: option.splits)

text \<open>
  Claim C8. When the parse returns: a dimension list of two axes or more gives
  \<^verbatim>\<open>image.shape\<close> with the first two axes swapped and the rest in order, a single axis
  passes through, and without a dimension list the record has no \<^verbatim>\<open>image\<close> branch. The
  witness runs the three lists of the specification, \<^verbatim>\<open>[10, 20]\<close>, \<^verbatim>\<open>[10, 20, 3]\<close> and
  \<^verbatim>\<open>[10]\<close>, and a tree without the list.
\<close>

theorem image_shape_reorder:
  assumes "parse_file py meta raw_meta = Inr rec"
  shows "(subscripts (VDict raw_meta) dimensions_path = Inr (VDict dims)
            \<and> those (map (py_int py) (map snd dims)) = Some (w # h # rest)
          \<longrightarrow> map_of rec ''image'' = Some (VDict [(''shape'', VList (map VInt (h # w # rest)))]))
       \<and> (subscripts (VDict raw_meta) dimensions_path = Inr (VDict dims)
            \<and> those (map (py_int py) (map snd dims)) = Some [w]
          \<longrightarrow> map_of rec ''image'' = Some (VDict [(''shape'', VList [VInt w])]))
       \<and> (subscripts (VDict raw_meta) dimensions_path = Inl e
          \<longrightarrow> map_of rec ''image'' = None)"
proof -
  from assms have rec: "map_of rec ''image'' =
      (if image_info py raw_meta \<noteq> [] then Some (VDict (image_info py raw_meta)) else None)"
    by (auto simp: parse_file_Inr map_of_assemble_image)
  show ?thesis
    unfolding rec image_info_cases
    by (auto simp: derive_shape_dims reorder_shape_simps) (simp add: derive_shape_def)
qed

text \<open>
  Claim C10. Shape derivation is atomic. The parse returns whenever the extraction
  stages return, so no exception of the shape derivation leaves it; an entry that \<^verbatim>\<open>int\<close>
  rejects makes the derivation fail; when the derivation fails the record has no
  \<^verbatim>\<open>image\<close> branch; and an \<^verbatim>\<open>image\<close> branch that is there is exactly the complete list of
  integers that the derivation gave.
\<close>

theorem image_shape_atomic:
  "(extract_em py meta raw_meta = Inr em
      \<longrightarrow> parse_file py meta raw_meta = Inr (assemble (remove_empty em) (image_info py raw_meta)))
   \<and> (parse_file py meta raw_meta = Inl e \<longrightarrow> extract_em py meta raw_meta = Inl e)
   \<and> (subscripts (VDict raw_meta) dimensions_path = Inr (VDict dims)
        \<and> d \<in> set (map snd dims) \<and> py_int py d = None
      \<longrightarrow> derive_shape py raw_meta = Inl ConversionError)
   \<and> (parse_file py meta raw_meta = Inr rec \<longrightarrow>
        (derive_shape py raw_meta = Inl e' \<longrightarrow> map_of rec ''image'' = None)
      \<and> (map_of rec ''image'' = Some img \<longrightarrow>
           (\<exists>shape. shape \<noteq> [] \<and> derive_shape py raw_meta = Inr shape
                 \<and> img = VDict [(''shape'', VList (map VInt shape))])))"
proof (intro conjI impI)
  assume "extract_em py meta raw_meta = Inr em"
  then show "parse_file py meta raw_meta = Inr (assemble (remove_empty em) (image_info py raw_meta))"
    by (simp add: parse_file_Inr)
next
  assume "parse_file py meta raw_meta = Inl e"
  then show "extract_em py meta raw_meta = Inl e" by (simp add: parse_file_Inl)
next
  assume a: "subscripts (VDict raw_meta) dimensions_path = Inr (VDict dims)
             \<and> d \<in> set (map snd dims) \<and> py_int py d = None"
  then have "None \<in> set (map (py_int py) (map snd dims))" by force
  then have "those (map (py_int py) (map snd dims)) = None" by (rule those_None)
  with a show "derive_shape py raw_meta = Inl ConversionError"
    by (simp add: derive_shape_dims)
next
  assume p: "parse_file py meta raw_meta = Inr rec" and "derive_shape py raw_meta = Inl e'"
  then show "map_of rec ''image'' = None"
    by (auto simp: parse_file_Inr map_of_assemble_image image_info_cases)
next
  assume p: "parse_file py meta raw_meta = Inr rec" and "map_of rec ''image'' = Some img"
  then show "\<exists>shape. shape \<noteq> [] \<and> derive_shape py raw_meta = Inr shape
                 \<and> img = VDict [(''shape'', VList (map VInt shape))]"
    by (auto simp: parse_file_Inr map_of_assemble_image image_info_cases
             split: sum.splits if_splits)
qed


theorem image_shape_reorder_witness:
  "parse_file cpython [] (raw_with_dimensions [(''Data0'', VInt 10), (''Data1'', VInt 20)])
     = Inr [(''electron_microscopy'', VDict [(''raw_metadata'',
              VDict (raw_with_dimensions [(''Data0'', VInt 10), (''Data1'', VInt 20)]))]),
            (''image'', VDict [(''shape'', VList [VInt 20, VInt 10])])]
   \<and> map_of [(''electron_microscopy'', VDict [(''raw_metadata'',
              VDict (raw_with_dimensions [(''Data0'', VInt 10), (''Data1'', VInt 20)]))]),
            (''image'', VDict [(''shape'', VList [VInt 20, VInt 10])])] ''image''
       = Some (VDict [(''shape'', VList (map VInt [20, 10]))])
   \<and> parse_file cpython []
         (raw_with_dimensions [(''Data0'', VInt 10), (''Data1'', VInt 20), (''Data2'', VInt 3)])
     = Inr [(''electron_microscopy'', VDict [(''raw_metadata'',
              VDict (raw_with_dimensions
                       [(''Data0'', VInt 10), (''Data1'', VInt 20), (''Data2'', VInt 3)]))]),
            (''image'', VDict [(''shape'', VList [VInt 20, VInt 10, VInt 3])])]
   \<and> parse_file cpython [] (raw_with_dimensions [(''Data0'', VInt 10)])
     = Inr [(''electron_microscopy'', VDict [(''raw_metadata'',
              VDict (raw_with_dimensions [(''Data0'', VInt 10)]))]),
            (''image'', VDict [(''shape'', VList [VInt 10])])]
   \<and> parse_file cpython [] [(''ImageList'', VDict [(''TagGroup0'', VDict [])])]
     = Inr [(''electron_microscopy'', VDict [(''raw_metadata'',
              VDict [(''ImageList'', VDict [(''TagGroup0'', VDict [])])])])]"
proof -
  let ?d2 = "[(''Data0'', VInt 10), (''Data1'', VInt 20)]"
  let ?r2 = "[(''electron_microscopy'', VDict [(''raw_metadata'', VDict (raw_with_dimensions ?d2))]),
              (''image'', VDict [(''shape'', VList [VInt 20, VInt 10])])]"
  have p: "parse_file cpython [] (raw_with_dimensions ?d2) = Inr ?r2" by code_simp
  have s: "subscripts (VDict (raw_with_dimensions ?d2)) dimensions_path = Inr (VDict ?d2)"
    by code_simp
  have t: "those (map (py_int cpython) (map snd ?d2)) = Some [10, 20]" by code_simp
  from image_shape_reorder [OF p, of ?d2 10 20 "[]"] s t
  have "map_of ?r2 ''image'' = Some (VDict [(''shape'', VList (map VInt [20, 10]))])" by blast
  moreover have "parse_file cpython []
         (raw_with_dimensions [(''Data0'', VInt 10), (''Data1'', VInt 20), (''Data2'', VInt 3)])
     = Inr [(''electron_microscopy'', VDict [(''raw_metadata'',
              VDict (raw_with_dimensions
                       [(''Data0'', VInt 10), (''Data1'', VInt 20), (''Data2'', VInt 3)]))]),
            (''image'', VDict [(''shape'', VList [VInt 20, VInt 10, VInt 3])])]" by code_simp
  moreover have "parse_file cpython [] (raw_with_dimensions [(''Data0'', VInt 10)])
     = Inr [(''electron_microscopy'', VDict [(''raw_metadata'',
              VDict (raw_with_dimensions [(''Data0'', VInt 10)]))]),
            (''image'', VDict [(''shape'', VList [VInt 10])])]" by code_simp
  moreover have "parse_file cpython [] [(''ImageList'', VDict [(''TagGroup0'', VDict [])])]
     = Inr [(''electron_microscopy'', VDict [(''raw_metadata'',
              VDict [(''ImageList'', VDict [(''TagGroup0'', VDict [])])])])]" by code_simp
  ultimately show ?thesis using p by blast
qed

theorem image_shape_atomic_witness:
  "parse_file cpython [] (raw_with_dimensions [(''Data0'', VInt 10), (''Data1'', VStr ''wide'')])
     = Inr [(''electron_microscopy'', VDict [(''raw_metadata'',
              VDict (raw_with_dimensions [(''Data0'', VInt 10), (''Data1'', VStr ''wide'')]))])]
   \<and> derive_shape cpython (raw_with_dimensions [(''Data0'', VInt 10), (''Data1'', VStr ''wide'')])
     = Inl ConversionError
   \<and> map_of [(''electron_microscopy'', VDict [(''raw_metadata'',
              VDict (raw_with_dimensions [(''Data0'', VInt 10), (''Data1'', VStr ''wide'')]))])]
        ''image'' = None"
proof -
  let ?d = "[(''Data0'', VInt 10), (''Data1'', VStr ''wide'')]"
  let ?r = "[(''electron_microscopy'', VDict [(''raw_metadata'', VDict (raw_with_dimensions ?d))])]"
  have p: "parse_file cpython [] (raw_with_dimensions ?d) = Inr ?r" by code_simp
  have s: "subscripts (VDict (raw_with_dimensions ?d)) dimensions_path = Inr (VDict ?d)"
    by code_simp
  have m: "VStr ''wide'' \<in> set (map snd ?d)" by simp
  have c: "py_int cpython (VStr ''wide'') = None" by code_simp
  from image_shape_atomic [of cpython "[]" "raw_with_dimensions ?d" _ _ ?d "VStr ''wide''" ?r
                               ConversionError] s m c
  have d: "derive_shape cpython (raw_with_dimensions ?d) = Inl ConversionError" by blast
  with image_shape_atomic [of cpython "[]" "raw_with_dimensions ?d" _ _ ?d "VStr ''wide''" ?r
                               ConversionError] p
  have "map_of ?r ''image'' = None" by blast
  with p d show ?thesis by blast
qed

section \<open>Paths in a tree\<close>

lemma walk_dict_Cons:
  "walk (VDict d) (k # ks) = (case map_of d k of None \<Rightarrow> None | Some w \<Rightarrow> walk w ks)"
  by simp

lemma set_path_top_other:
  "p = [] \<or> hd p \<noteq> k \<Longrightarrow> map_of (set_path d p v) k = map_of d k"
  by (induction d p v rule: set_path.induct)
     (auto simp: update_conv' split: option.splits val.splits)

lemma set_path_keys:
  "fst ` set (set_path d p v) \<subseteq> set (take 1 p) \<union> fst ` set d"
proof (cases "(d, p, v)" rule: set_path.cases)
  case (1 d v)
  then show ?thesis by simp
next
  case (2 d k v)
  then show ?thesis by (simp add: dom_update)
next
  case (3 d k k' ks v)
  then show ?thesis by (auto simp: dom_update split: option.splits val.splits)
qed

lemma set_path_distinct:
  "distinct (map fst d) \<Longrightarrow> distinct (map fst (set_path d p v))"
  by (cases "(d, p, v)" rule: set_path.cases)
     (auto simp: distinct_update split: option.splits val.splits)

lemma set_path_not_writable: "\<not> writable d p \<Longrightarrow> set_path d p v = d"
  by (induction d p v rule: set_path.induct)
     (auto simp: update_triv split: option.splits val.splits)

lemma writable_Nil [simp]: "writable [] (k # ks)"
  by (cases ks) simp_all

lemma walk_set_path_same: "writable d p \<Longrightarrow> walk (VDict (set_path d p v)) p = Some v"
  by (induction d p v rule: set_path.induct)
     (auto simp: update_conv' split: option.splits val.splits)

lemma walk_set_path_other:
  "\<not> prefix q p \<Longrightarrow> \<not> prefix p q \<Longrightarrow> walk (VDict (set_path d q v)) p = walk (VDict d) p"
proof (induction d q v arbitrary: p rule: set_path.induct)
  case (1 d v)
  then show ?case by simp
next
  case (2 d k v)
  then obtain k' ks where p: "p = k' # ks" "k' \<noteq> k" by (cases p) auto
  then show ?case by (simp add: update_conv')
next
  case (3 d k k' ks v)
  from "3.prems" obtain j js where p: "p = j # js" by (cases p) auto
  show ?case
  proof (cases "j = k")
    case False
    then have "map_of (set_path d (k # k' # ks) v) j = map_of d j"
      by (intro set_path_top_other) simp
    then show ?thesis by (simp add: p del: set_path.simps)
  next
    case True
    with "3.prems" p have np: "\<not> prefix (k' # ks) js" "\<not> prefix js (k' # ks)" by auto
    show ?thesis
    proof (cases "map_of d k")
      case None
      with "3.IH"(1) [OF None np] show ?thesis
        using np by (cases js) (auto simp: p True update_conv')
    next
      case (Some w)
      show ?thesis
      proof (cases w)
        case (VDict sub)
        with "3.IH"(2) [OF Some VDict np] Some show ?thesis
          by (simp add: p True update_conv')
      qed (simp_all add: Some)
    qed
  qed
qed

text \<open>
  A populated path has populated prefixes: the values above a leaf are dicts that are
  not empty.
\<close>

lemma walk_prefix_dict:
  "walk v (p @ k # ks) = Some w \<Longrightarrow> \<exists>d. walk v p = Some (VDict d) \<and> d \<noteq> []"
proof (induction v p rule: walk.induct)
  case (1 v)
  then show ?case by (cases v) (auto split: option.splits)
next
  case (2 kvs k' ks')
  then show ?case by (auto split: option.splits)
qed simp_all

lemma populated_prefix:
  assumes "populated d p" "prefix q p"
  shows "populated d q"
proof (cases "q = p")
  case True
  with assms show ?thesis by simp
next
  case False
  with assms(2) obtain k ks where p: "p = q @ k # ks"
    by (metis prefixE list.exhaust append_Nil2)
  from assms(1) obtain w where "walk (VDict d) (q @ k # ks) = Some w"
    by (auto simp: populated_def p split: option.splits)
  from walk_prefix_dict [OF this] show ?thesis
    by (auto simp: populated_def is_empty_value_def)
qed

section \<open>What a stage may write\<close>

lemma apply_rule_cases:
  "apply_rule m d = d \<or> (\<exists>v. apply_rule m d = set_path d (dest_path m) v)"
  by (auto simp: apply_rule_def set_val_units_def split: option.splits)

lemma map_dict_values_Nil [simp]: "map_dict_values [] d = d"
  by (simp add: map_dict_values_def)

lemma map_dict_values_Cons [simp]:
  "map_dict_values (m # ms) d = map_dict_values ms (apply_rule m d)"
  by (simp add: map_dict_values_def)

lemma map_dict_values_append:
  "map_dict_values (xs @ ys) d = map_dict_values ys (map_dict_values xs d)"
  by (simp add: map_dict_values_def)

lemma map_dict_values_preserves:
  assumes "P d" and "set (map dest_path rules) \<subseteq> S"
      and step: "\<And>p d v. p \<in> S \<Longrightarrow> P d \<Longrightarrow> P (set_path d p v)"
  shows "P (map_dict_values rules d)"
  using assms(1,2)
proof (induction rules arbitrary: d)
  case Nil
  then show ?case by simp
next
  case (Cons m ms)
  from Cons.prems have "P (apply_rule m d)"
    using apply_rule_cases [of m d] step [of "dest_path m" d] by auto
  with Cons show ?case by simp
qed

lemma hs_instrument_paths:
  "set (map dest_path (hs_instrument_mapping py source)) \<subseteq> set hs_dest_paths"
  by (simp add: hs_instrument_mapping_def hs_dest_paths_def)

lemma hs_detector_paths:
  "set (map dest_path (hs_detector_type_mapping py inst_data)) \<subseteq> set hs_dest_paths"
  "set (map dest_path (hs_detector_node_mapping py node)) \<subseteq> set hs_dest_paths"
  by (simp_all add: hs_detector_type_mapping_def hs_detector_node_mapping_def hs_dest_paths_def)

lemma hs_general_paths:
  "set (map dest_path (hs_general_mapping py source)) \<subseteq> set hs_dest_paths"
  by (simp add: hs_general_mapping_def hs_dest_paths_def)

lemma process_hs_detectors_preserves:
  assumes "P em" and step: "\<And>p d v. p \<in> set hs_dest_paths \<Longrightarrow> P d \<Longrightarrow> P (set_path d p v)"
  shows "P (process_hs_detectors py inst_data em)"
proof -
  have "set (map dest_path
          (hs_detector_type_mapping py inst_data @
           (case get_val inst_data [''Detector''] None of
              None \<Rightarrow> []
            | Some detector_node \<Rightarrow> hs_detector_node_mapping py detector_node)))
        \<subseteq> set hs_dest_paths"
    using hs_detector_paths(1) [of py inst_data]
    by (cases "get_val inst_data [''Detector''] None")
       (simp_all add: hs_detector_paths(2) del: set_map)
  then show ?thesis
    unfolding process_hs_detectors_def
    by (rule map_dict_values_preserves [where P = P and S = "set hs_dest_paths", OF assms(1) _ step])
qed

lemma process_hs_data_preserves:
  assumes "process_hs_data py meta em = Inr em'" and "P em"
      and step: "\<And>p d v. p \<in> set hs_dest_paths \<Longrightarrow> P d \<Longrightarrow> P (set_path d p v)"
  shows "P em'"
proof -
  have "P (map_dict_values (hs_instrument_mapping py inst_data) em)" for inst_data
    by (rule map_dict_values_preserves
          [where P = P and S = "set hs_dest_paths", OF assms(2) hs_instrument_paths step])
  then have inst: "P (process_hs_detectors py inst_data
                  (map_dict_values (hs_instrument_mapping py inst_data) em))" for inst_data
    by (rule process_hs_detectors_preserves [where P = P, OF _ step])
  have gen: "P d \<Longrightarrow> P (map_dict_values (hs_general_mapping py (VDict meta)) d)" for d
    by (rule map_dict_values_preserves
          [where P = P and S = "set hs_dest_paths", OF _ hs_general_paths step])
  from assms(1) show ?thesis
    by (auto simp: process_hs_data_def Let_def split: sum.splits option.splits
             intro!: gen inst assms(2))
qed

lemma dm3_general_paths:
  "set (map dest_path (dm3_general_mapping py raw_meta)) \<subseteq> set general_dest_paths"
  by (auto simp: dm3_general_mapping_def Let_def general_dest_paths_def
        dm3_microscope_info_mapping_def dm3_voltage_mapping_def dm3_session_info_mapping_def
        dm3_meta_data_mapping_def dm3_misc_mapping_def split: option.splits val.splits)

lemma set_val_units_cases:
  "set_val_units d p v u ovr = d \<or> (\<exists>w. set_val_units d p v u ovr = set_path d p w)"
  by (auto simp: set_val_units_def)

lemma dm3_general_info_preserves:
  assumes "P em" and step: "\<And>p d v. p \<in> set general_dest_paths \<Longrightarrow> P d \<Longrightarrow> P (set_path d p v)"
  shows "P (dm3_general_info py raw_meta em)"
proof -
  have "[''General_EM'', ''acquisition_software_name''] \<in> set general_dest_paths"
    by (simp add: general_dest_paths_def)
  from step [OF this assms(1)]
  have "P (set_val_units em [''General_EM'', ''acquisition_software_name'']
             (VStr ''DigitalMicrograph'') None False)"
    using set_val_units_cases [of em "[''General_EM'', ''acquisition_software_name'']"
            "VStr ''DigitalMicrograph''" None False] assms(1)
    by (auto simp del: set_path.simps)
  with assms(1) have "P (if get_val (VDict raw_meta) [''ImageList'', ''TagGroup0'', ''ImageTags''] None \<noteq> None
          then set_val_units em [''General_EM'', ''acquisition_software_name'']
                 (VStr ''DigitalMicrograph'') None False
        else em)" by simp
  then show ?thesis
    unfolding dm3_general_info_def
    by (rule map_dict_values_preserves
          [where P = P and S = "set general_dest_paths", OF _ dm3_general_paths step])
qed

lemma dm3_eels_info_preserves:
  assumes "P em" and step: "\<And>p d v. p \<in> set eels_dest_paths \<Longrightarrow> P d \<Longrightarrow> P (set_path d p v)"
  shows "P (dm3_eels_info py raw_meta em)"
  unfolding dm3_eels_info_def Let_def
  by (rule map_dict_values_preserves [where P = P and S = "set eels_dest_paths", OF assms(1) _ step])
     (simp add: eels_dest_paths_def dm3_eels_mapping_def dm3_spectrometer_mapping_def)

lemma dm3_eds_info_preserves:
  assumes "P em" and step: "\<And>p d v. p \<in> set eds_dest_paths \<Longrightarrow> P d \<Longrightarrow> P (set_path d p v)"
  shows "P (dm3_eds_info py raw_meta em)"
  unfolding dm3_eds_info_def
  by (rule map_dict_values_preserves [where P = P and S = "set eds_dest_paths", OF assms(1) _ step])
     (simp add: eds_dest_paths_def dm3_eds_mapping_def)

lemma tecnai_mapping_paths:
  "tecnai_mapping py tecnai_info = Inr rules \<Longrightarrow>
     set (map dest_path rules) \<subseteq> set tecnai_dest_paths"
  by (auto simp: tecnai_mapping_def then_do_Inr tecnai_rules_def tecnai_dest_paths_def)

lemma tecnai_stage_mapping_paths:
  "tecnai_stage_mapping py tecnai_info = Inr rules \<Longrightarrow>
     set (map dest_path rules) \<subseteq> set tecnai_dest_paths"
  by (auto simp: tecnai_stage_mapping_def then_do_Inr tecnai_stage_rules_def tecnai_dest_paths_def
           split: option.splits if_splits)

lemma tecnai_filter_mapping_paths:
  "tecnai_filter_mapping py tecnai_info = Inr rules \<Longrightarrow>
     set (map dest_path rules) \<subseteq> set tecnai_dest_paths"
  by (auto simp: tecnai_filter_mapping_def then_do_Inr tecnai_filter_rules_def tecnai_dest_paths_def
           split: if_splits)

lemma dm3_tecnai_info_preserves:
  assumes "dm3_tecnai_info delimiter py raw_meta em = Inr em'" and "P em"
      and step: "\<And>p d v. p \<in> set tecnai_dest_paths \<Longrightarrow> P d \<Longrightarrow> P (set_path d p v)"
  shows "P em'"
proof -
  have "P (map_dict_values (a @ b @ c) em)"
    if "tecnai_mapping py l = Inr a" "tecnai_stage_mapping py l = Inr b"
       "tecnai_filter_mapping py l = Inr c" for a b c l
    using tecnai_mapping_paths [OF that(1)] tecnai_stage_mapping_paths [OF that(2)]
          tecnai_filter_mapping_paths [OF that(3)]
    by (intro map_dict_values_preserves [where P = P and S = "set tecnai_dest_paths", OF assms(2) _ step])
       (simp_all del: set_map)
  with assms(1,2) show ?thesis
    by (auto simp: dm3_tecnai_info_def then_do_Inr split: option.splits val.splits)
qed

lemma non_hs_data_preserves:
  assumes "P em" and step: "\<And>p d v. p \<in> set non_hs_dest_paths \<Longrightarrow> P d \<Longrightarrow> P (set_path d p v)"
  shows "P (non_hs_data py raw_meta em)"
proof -
  have upd: "P d \<Longrightarrow> [k] \<in> set non_hs_dest_paths \<Longrightarrow> P (AList.update k v d)" for d k v
    using step [of "[k]" d v] by simp
  show ?thesis
    unfolding non_hs_data_def Let_def
    by (auto split: option.splits intro!: upd assms(1) simp: non_hs_dest_paths_def)
qed

lemma extract_em_preserves:
  assumes "extract_em py meta raw_meta = Inr em" and "P (initial_em raw_meta)"
      and step: "\<And>p d v. p \<in> set written_paths \<Longrightarrow> P d \<Longrightarrow> P (set_path d p v)"
  shows "P em"
proof -
  from assms(1) obtain em1 em2 where
    1: "process_hs_data py meta (initial_em raw_meta) = Inr em1" and
    2: "dm3_tecnai_info line_separator py raw_meta
          (dm3_eels_info py raw_meta (dm3_general_info py raw_meta em1)) = Inr em2" and
    3: "em = non_hs_data py raw_meta (dm3_eds_info py raw_meta em2)"
    by (auto simp: extract_em_def split: sum.splits)
  have "P em1"
    by (rule process_hs_data_preserves [where P = P, OF 1 assms(2)]) (simp add: step written_paths_def)
  then have "P (dm3_general_info py raw_meta em1)"
    by (rule dm3_general_info_preserves [where P = P]) (simp add: step written_paths_def)
  then have "P (dm3_eels_info py raw_meta (dm3_general_info py raw_meta em1))"
    by (rule dm3_eels_info_preserves [where P = P]) (simp add: step written_paths_def)
  then have "P em2"
    by (rule dm3_tecnai_info_preserves [where P = P, OF 2]) (simp add: step written_paths_def)
  then have "P (dm3_eds_info py raw_meta em2)"
    by (rule dm3_eds_info_preserves [where P = P]) (simp add: step written_paths_def)
  then show ?thesis
    unfolding 3 by (rule non_hs_data_preserves [where P = P]) (simp add: step written_paths_def)
qed

section \<open>Invariants of the extraction\<close>

lemma written_paths_heads:
  "list_all (\<lambda>p. p \<noteq> [] \<and> hd p \<in> set (sections @ top_level_fields)) written_paths"
  by (simp add: written_paths_def hs_dest_paths_def general_dest_paths_def eels_dest_paths_def
        tecnai_dest_paths_def eds_dest_paths_def non_hs_dest_paths_def sections_def
        top_level_fields_def
        hs_instrument_mapping_def hs_detector_type_mapping_def hs_detector_node_mapping_def
        hs_general_mapping_def dm3_microscope_info_mapping_def dm3_voltage_mapping_def
        dm3_session_info_mapping_def dm3_meta_data_mapping_def dm3_misc_mapping_def
        dm3_eels_mapping_def dm3_spectrometer_mapping_def dm3_eds_mapping_def
        tecnai_rules_def tecnai_stage_rules_def tecnai_filter_rules_def)

lemma written_path_head:
  assumes "p \<in> set written_paths"
  shows "p \<noteq> []" and "hd p \<in> set (sections @ top_level_fields)"
  using assms written_paths_heads by (auto simp: list_all_iff)

lemma initial_em_keys: "map fst (initial_em raw_meta) = ''raw_metadata'' # sections"
  by (simp add: initial_em_def sections_def)

lemma initial_em_raw: "map_of (initial_em raw_meta) ''raw_metadata'' = Some (VDict raw_meta)"
  by (simp add: initial_em_def sections_def)

lemma extract_em_distinct:
  assumes "extract_em py meta raw_meta = Inr em"
  shows "distinct (map fst em)"
  by (rule extract_em_preserves [where P = "\<lambda>d. distinct (map fst d)", OF assms])
     (simp_all add: initial_em_keys sections_def set_path_distinct)

lemma extract_em_raw:
  assumes "extract_em py meta raw_meta = Inr em"
  shows "map_of em ''raw_metadata'' = Some (VDict raw_meta)"
proof (rule extract_em_preserves
         [where P = "\<lambda>d. map_of d ''raw_metadata'' = Some (VDict raw_meta)", OF assms])
  show "map_of (initial_em raw_meta) ''raw_metadata'' = Some (VDict raw_meta)"
    by (rule initial_em_raw)
next
  fix p d v
  assume p: "p \<in> set written_paths" and d: "map_of d ''raw_metadata'' = Some (VDict raw_meta)"
  from written_path_head [OF p] have "hd p \<noteq> ''raw_metadata''"
    by (auto simp: sections_def top_level_fields_def)
  then show "map_of (set_path d p v) ''raw_metadata'' = Some (VDict raw_meta)"
    by (simp add: set_path_top_other d)
qed

lemma extract_em_keys:
  assumes "extract_em py meta raw_meta = Inr em"
  shows "fst ` set em \<subseteq> set (''raw_metadata'' # sections @ top_level_fields)"
proof (rule extract_em_preserves
         [where P = "\<lambda>d::pydict. fst ` set d \<subseteq> set (''raw_metadata'' # sections @ top_level_fields)", OF assms])
  show "fst ` set (initial_em raw_meta) \<subseteq> set (''raw_metadata'' # sections @ top_level_fields)"
    by (auto simp flip: set_map simp add: initial_em_keys)
next
  fix p v and d :: pydict
  assume p: "p \<in> set written_paths"
     and d: "fst ` set d \<subseteq> set (''raw_metadata'' # sections @ top_level_fields)"
  from written_path_head [OF p] have "set (take 1 p) \<subseteq> set (sections @ top_level_fields)"
    by (cases p) auto
  with set_path_keys [of d p v] d
  show "fst ` set (set_path d p v) \<subseteq> set (''raw_metadata'' # sections @ top_level_fields)"
    by auto
qed

lemma map_of_remove_empty:
  "map_of (remove_empty em) k = (if k \<in> empty_keys em then None else map_of em k)"
proof -
  have "map_of (filter (\<lambda>kv. fst kv \<notin> S) xs) k = (if k \<in> S then None else map_of xs k)"
    for S and xs :: pydict
    by (induction xs) auto
  then show ?thesis by (simp add: remove_empty_filter)
qed

lemma empty_keys_distinct:
  assumes "distinct (map fst em)"
  shows "k \<in> empty_keys em \<longleftrightarrow> (\<exists>v. map_of em k = Some v \<and> is_empty_value v)"
  using assms by (auto simp: in_empty_keys)

lemma walk_assemble:
  "ks \<noteq> [] \<Longrightarrow> walk (VDict (assemble em img)) (''electron_microscopy'' # ks) = walk (VDict em) ks"
  by (cases ks) (simp_all add: map_of_assemble_em)

lemma extract_em_raw_survives:
  assumes "extract_em py meta raw_meta = Inr em"
  shows "map_of (remove_empty em) ''raw_metadata'' = (if raw_meta = [] then None else Some (VDict raw_meta))"
  using extract_em_raw [OF assms] empty_keys_distinct [OF extract_em_distinct [OF assms]]
  by (simp add: map_of_remove_empty is_empty_value_def)

text \<open>
  Claim C1, amended. When the parse returns and the raw metadata tree is not empty, the
  record holds it unmodified under \<^verbatim>\<open>electron_microscopy.raw_metadata\<close>; when the raw tree is
  empty, the removal of empty values takes the key away and the record has no
  \<^verbatim>\<open>raw_metadata\<close> entry.
\<close>

theorem raw_metadata_retained:
  assumes "parse_file py meta raw_meta = Inr rec"
  shows "(raw_meta \<noteq> [] \<longrightarrow>
            walk (VDict rec) [''electron_microscopy'', ''raw_metadata''] = Some (VDict raw_meta))
       \<and> (raw_meta = [] \<longrightarrow>
            walk (VDict rec) [''electron_microscopy'', ''raw_metadata''] = None)"
proof -
  from assms obtain em where em: "extract_em py meta raw_meta = Inr em"
    and rec: "rec = assemble (remove_empty em) (image_info py raw_meta)"
    by (auto simp: parse_file_Inr)
  have "walk (VDict rec) [''electron_microscopy'', ''raw_metadata'']
          = walk (VDict (remove_empty em)) [''raw_metadata'']"
    unfolding rec by (rule walk_assemble) simp
  then show ?thesis
    using extract_em_raw_survives [OF em] by simp
qed

theorem raw_metadata_retained_witness:
  "parse_file cpython sample_meta [(''a'', VDict [])]
     = Inr [(''electron_microscopy'',
             VDict [(''raw_metadata'', VDict [(''a'', VDict [])]),
                    (''General_EM'',
                     VDict [(''beam_energy'', VDict [(''value'', VFloat 200), (''unit'', VStr ''KiloEV'')]),
                            (''microscope_name'', VStr ''JEOL'')])])]
   \<and> walk (VDict [(''electron_microscopy'',
             VDict [(''raw_metadata'', VDict [(''a'', VDict [])]),
                    (''General_EM'',
                     VDict [(''beam_energy'', VDict [(''value'', VFloat 200), (''unit'', VStr ''KiloEV'')]),
                            (''microscope_name'', VStr ''JEOL'')])])])
        [''electron_microscopy'', ''raw_metadata''] = Some (VDict [(''a'', VDict [])])"
proof -
  let ?rec = "[(''electron_microscopy'',
             VDict [(''raw_metadata'', VDict [(''a'', VDict [])]),
                    (''General_EM'',
                     VDict [(''beam_energy'', VDict [(''value'', VFloat 200), (''unit'', VStr ''KiloEV'')]),
                            (''microscope_name'', VStr ''JEOL'')])])]"
  have p: "parse_file cpython sample_meta [(''a'', VDict [])] = Inr ?rec" by code_simp
  from raw_metadata_retained [OF p] p show ?thesis by simp
qed

text \<open>
  The end-to-end example of the specification: with empty raw metadata the record has no
  \<^verbatim>\<open>raw_metadata\<close> key, against claim C1 as stated.
\<close>

theorem raw_metadata_counterexample:
  "parse_file cpython sample_meta []
     = Inr [(''electron_microscopy'',
             VDict [(''General_EM'',
                     VDict [(''beam_energy'', VDict [(''value'', VFloat 200), (''unit'', VStr ''KiloEV'')]),
                            (''microscope_name'', VStr ''JEOL'')])])]
   \<and> walk (VDict [(''electron_microscopy'',
             VDict [(''General_EM'',
                     VDict [(''beam_energy'', VDict [(''value'', VFloat 200), (''unit'', VStr ''KiloEV'')]),
                            (''microscope_name'', VStr ''JEOL'')])])])
        [''electron_microscopy'', ''raw_metadata''] = None"
  by code_simp

text \<open>
  Claim C3, amended. Every top-level key of the returned \<^verbatim>\<open>electron_microscopy\<close> mapping
  is one of the sections \<^verbatim>\<open>General\<close>, \<^verbatim>\<open>General_EM\<close>, \<^verbatim>\<open>TEM\<close>, \<^verbatim>\<open>SEM\<close>, \<^verbatim>\<open>EDS\<close>, \<^verbatim>\<open>EELS\<close>,
  \<^verbatim>\<open>raw_metadata\<close>, or one of the four fields \<^verbatim>\<open>emission_current\<close>, \<^verbatim>\<open>operation_mode\<close>,
  \<^verbatim>\<open>microscope\<close>, \<^verbatim>\<open>spot_size\<close> that lines 175 to 201 store directly at the top level.
\<close>

theorem top_level_keys:
  assumes "parse_file py meta raw_meta = Inr rec"
      and "map_of rec ''electron_microscopy'' = Some (VDict em)"
  shows "set (map fst em) \<subseteq>
           set ([''General'', ''General_EM'', ''TEM'', ''SEM'', ''EDS'', ''EELS'', ''raw_metadata'']
                @ [''emission_current'', ''operation_mode'', ''microscope'', ''spot_size''])"
proof -
  from assms(1) obtain em0 where em0: "extract_em py meta raw_meta = Inr em0"
    and rec: "rec = assemble (remove_empty em0) (image_info py raw_meta)"
    by (auto simp: parse_file_Inr)
  from assms(2) have "em = remove_empty em0"
    by (simp add: rec map_of_assemble_em split: if_splits)
  then have "set em \<subseteq> set em0" by (auto simp: remove_empty_filter)
  with extract_em_keys [OF em0] show ?thesis
    by (auto simp: sections_def top_level_fields_def)
qed

theorem top_level_keys_witness:
  "parse_file cpython [] (raw_with_image_tags [(''Microscope Info'', VDict [(''Operation Mode'', VStr ''IMAGING'')])])
     = Inr [(''electron_microscopy'',
             VDict [(''raw_metadata'', VDict (raw_with_image_tags [(''Microscope Info'', VDict [(''Operation Mode'', VStr ''IMAGING'')])])),
                    (''General_EM'', VDict [(''acquisition_software_name'', VStr ''DigitalMicrograph'')]),
                    (''TEM'', VDict [(''operation_mode'', VStr ''IMAGING'')]),
                    (''operation_mode'', VStr ''IMAGING'')])]
   \<and> set [''raw_metadata'', ''General_EM'', ''TEM'', ''operation_mode'']
       \<subseteq> set ([''General'', ''General_EM'', ''TEM'', ''SEM'', ''EDS'', ''EELS'', ''raw_metadata'']
                @ [''emission_current'', ''operation_mode'', ''microscope'', ''spot_size''])"
proof -
  let ?raw = "raw_with_image_tags [(''Microscope Info'', VDict [(''Operation Mode'', VStr ''IMAGING'')])]"
  let ?em = "[(''raw_metadata'', VDict ?raw),
              (''General_EM'', VDict [(''acquisition_software_name'', VStr ''DigitalMicrograph'')]),
              (''TEM'', VDict [(''operation_mode'', VStr ''IMAGING'')]),
              (''operation_mode'', VStr ''IMAGING'')]"
  have p: "parse_file cpython [] ?raw = Inr [(''electron_microscopy'', VDict ?em)]" by code_simp
  have m: "map_of [(''electron_microscopy'', VDict ?em)] ''electron_microscopy'' = Some (VDict ?em)"
    by simp
  from top_level_keys [OF p m] p show ?thesis by simp
qed

text \<open>
  A DigitalMicrograph file with an operation mode: the field \<^verbatim>\<open>operation_mode\<close> appears at
  the top level of \<^verbatim>\<open>electron_microscopy\<close>, outside every section, against claim C3 as
  stated.
\<close>

theorem top_level_keys_counterexample:
  "parse_file cpython [] (raw_with_image_tags [(''Microscope Info'', VDict [(''Operation Mode'', VStr ''IMAGING'')])])
     = Inr [(''electron_microscopy'',
             VDict [(''raw_metadata'', VDict (raw_with_image_tags [(''Microscope Info'', VDict [(''Operation Mode'', VStr ''IMAGING'')])])),
                    (''General_EM'', VDict [(''acquisition_software_name'', VStr ''DigitalMicrograph'')]),
                    (''TEM'', VDict [(''operation_mode'', VStr ''IMAGING'')]),
                    (''operation_mode'', VStr ''IMAGING'')])]
   \<and> ''operation_mode'' \<notin> set [''General'', ''General_EM'', ''TEM'', ''SEM'', ''EDS'', ''EELS'', ''raw_metadata'']"
  by code_simp

text \<open>
  Claim C5, amended. The final removal of empty values looks at the top level of the
  \<^verbatim>\<open>electron_microscopy\<close> tree only: an entry is removed exactly when its value is \<^verbatim>\<open>None\<close>,
  \<^verbatim>\<open>[]\<close> or \<^verbatim>\<open>{}\<close>, and every other entry is kept with its value as it is, whatever that
  value contains.
\<close>

theorem pruning_top_level_only:
  assumes "extract_em py meta raw_meta = Inr em"
  shows "parse_file py meta raw_meta
           = Inr (assemble (filter (\<lambda>(k, v). \<not> is_empty_value v) em) (image_info py raw_meta))"
  using assms remove_empty_distinct [OF extract_em_distinct [OF assms]]
  by (simp add: parse_file_Inr)

theorem pruning_top_level_only_witness:
  "extract_em cpython [] [(''a'', VDict [])]
     = Inr [(''raw_metadata'', VDict [(''a'', VDict [])]), (''General'', VDict []),
            (''General_EM'', VDict []), (''TEM'', VDict []), (''SEM'', VDict []),
            (''EDS'', VDict []), (''EELS'', VDict [])]
   \<and> parse_file cpython [] [(''a'', VDict [])]
     = Inr (assemble [(''raw_metadata'', VDict [(''a'', VDict [])])] [])"
proof -
  let ?em = "[(''raw_metadata'', VDict [(''a'', VDict [])]), (''General'', VDict []),
            (''General_EM'', VDict []), (''TEM'', VDict []), (''SEM'', VDict []),
            (''EDS'', VDict []), (''EELS'', VDict [])]"
  have e: "extract_em cpython [] [(''a'', VDict [])] = Inr ?em" by code_simp
  have f: "filter (\<lambda>(k, v). \<not> is_empty_value v) ?em = [(''raw_metadata'', VDict [(''a'', VDict [])])]"
    by code_simp
  have i: "image_info cpython [(''a'', VDict [])] = []" by code_simp
  from pruning_top_level_only [OF e] e show ?thesis by (simp only: f i simp_thms)
qed

text \<open>
  A raw tree with an empty mapping inside: the record still holds that empty mapping
  below the top level, against claim C5 as stated.
\<close>

theorem pruning_depth_counterexample:
  "parse_file cpython [] [(''a'', VDict [])]
     = Inr [(''electron_microscopy'', VDict [(''raw_metadata'', VDict [(''a'', VDict [])])])]
   \<and> walk (VDict [(''electron_microscopy'', VDict [(''raw_metadata'', VDict [(''a'', VDict [])])])])
        [''electron_microscopy'', ''raw_metadata'', ''a''] = Some (VDict [])"
  by code_simp

section \<open>Rules that target one destination\<close>

lemma apply_rule_value:
  "apply_rule m d =
     (case rule_value m of
        None \<Rightarrow> d
      | Some leaf \<Rightarrow>
          if \<not> override m \<and> populated d (dest_path m) then d else set_path d (dest_path m) leaf)"
  by (simp add: apply_rule_def rule_value_def set_val_units_def split: option.splits)

lemma apply_rule_populated:
  "\<not> override m \<Longrightarrow> populated d (dest_path m) \<Longrightarrow> apply_rule m d = d"
  by (simp add: apply_rule_value split: option.splits)

lemma apply_rule_frame:
  assumes "\<not> prefix (dest_path m) p" "\<not> prefix p (dest_path m)"
  shows "walk (VDict (apply_rule m d)) p = walk (VDict d) p"
  using apply_rule_cases [of m d] assms by (auto simp: walk_set_path_other)

lemma apply_rule_write_once:
  assumes "populated d p" "\<not> override m" "\<not> strict_prefix p (dest_path m)"
  shows "walk (VDict (apply_rule m d)) p = walk (VDict d) p"
proof (cases "prefix (dest_path m) p")
  case True
  with assms(1) have "populated d (dest_path m)" by (rule populated_prefix)
  with assms(2) show ?thesis by (simp add: apply_rule_populated)
next
  case False
  moreover from False assms(3) have "\<not> prefix p (dest_path m)"
    by (auto simp: strict_prefix_def)
  ultimately show ?thesis by (rule apply_rule_frame)
qed

lemma map_dict_values_write_once:
  assumes "populated d p" "\<forall>m\<in>set rules. \<not> override m \<and> \<not> strict_prefix p (dest_path m)"
  shows "walk (VDict (map_dict_values rules d)) p = walk (VDict d) p"
  using assms
proof (induction rules arbitrary: d)
  case Nil
  then show ?case by simp
next
  case (Cons m ms)
  then have w: "walk (VDict (apply_rule m d)) p = walk (VDict d) p"
    by (intro apply_rule_write_once) auto
  with Cons.prems(1) have "populated (apply_rule m d) p" by (simp add: populated_def)
  with Cons.IH [of "apply_rule m d"] Cons.prems(2) w show ?case by simp
qed

lemma first_rule_value:
  assumes "rule_value m1 = Some leaf" "\<not> is_empty_value leaf" "writable d (dest_path m1)"
      and "override m1 \<or> \<not> populated d (dest_path m1)"
      and "dest_path m2 = dest_path m1" "\<not> override m2"
  shows "walk (VDict (map_dict_values [m1, m2] d)) (dest_path m1) = Some leaf"
proof -
  from assms(1,4) have 1: "apply_rule m1 d = set_path d (dest_path m1) leaf"
    by (auto simp: apply_rule_value)
  with assms(3) have w: "walk (VDict (apply_rule m1 d)) (dest_path m1) = Some leaf"
    by (simp add: walk_set_path_same)
  with assms(2) have "populated (apply_rule m1 d) (dest_path m2)"
    by (simp add: populated_def assms(5))
  with assms(6) have "apply_rule m2 (apply_rule m1 d) = apply_rule m1 d"
    by (rule apply_rule_populated)
  with w show ?thesis by simp
qed

text \<open>
  Claim C4, on the engine as the specification describes it. Once a destination path is
  populated, a list of rules with \<^verbatim>\<open>override=False\<close>, none of which writes below that path,
  leaves its value as it is; and of two rules for one destination, the second with
  \<^verbatim>\<open>override=False\<close>, the leaf of the first stays, whatever the second would write. The
  witness runs the two \<^verbatim>\<open>exposure_time\<close> rules of lines 634 to 644.
\<close>

theorem first_writer_wins:
  "(populated dest p \<and> (\<forall>m\<in>set rules. \<not> override m \<and> \<not> strict_prefix p (dest_path m))
      \<longrightarrow> walk (VDict (map_dict_values rules dest)) p = walk (VDict dest) p)
   \<and> (rule_value m1 = Some leaf \<and> \<not> is_empty_value leaf \<and> writable dest (dest_path m1)
        \<and> \<not> populated dest (dest_path m1) \<and> dest_path m2 = dest_path m1 \<and> \<not> override m2
      \<longrightarrow> walk (VDict (map_dict_values [m1, m2] dest)) (dest_path m1) = Some leaf)"
  using map_dict_values_write_once [of dest p rules] first_rule_value [of m1 leaf dest m2]
  by blast

theorem first_writer_wins_witness:
  "map_dict_values (dm3_misc_mapping cpython raw_exposure [''ImageList'', ''TagGroup0'', ''ImageTags''])
     (initial_em raw_exposure)
   = map_dict_values
       [dm3_misc_mapping cpython raw_exposure [''ImageList'', ''TagGroup0'', ''ImageTags''] ! 2,
        dm3_misc_mapping cpython raw_exposure [''ImageList'', ''TagGroup0'', ''ImageTags''] ! 3]
       (initial_em raw_exposure)
   \<and> walk (VDict (map_dict_values
         [dm3_misc_mapping cpython raw_exposure [''ImageList'', ''TagGroup0'', ''ImageTags''] ! 2,
          dm3_misc_mapping cpython raw_exposure [''ImageList'', ''TagGroup0'', ''ImageTags''] ! 3]
         (initial_em raw_exposure)))
       [''General_EM'', ''exposure_time'']
     = Some (VDict [(''value'', VFloat (1 / 2)), (''unit'', VStr ''SEC'')])
   \<and> populated
         (apply_rule (dm3_misc_mapping cpython raw_exposure [''ImageList'', ''TagGroup0'', ''ImageTags''] ! 2)
            (initial_em raw_exposure))
         [''General_EM'', ''exposure_time'']
   \<and> walk (VDict (map_dict_values
         [dm3_misc_mapping cpython raw_exposure [''ImageList'', ''TagGroup0'', ''ImageTags''] ! 3]
         (apply_rule (dm3_misc_mapping cpython raw_exposure [''ImageList'', ''TagGroup0'', ''ImageTags''] ! 2)
            (initial_em raw_exposure))))
       [''General_EM'', ''exposure_time'']
     = walk (VDict
         (apply_rule (dm3_misc_mapping cpython raw_exposure [''ImageList'', ''TagGroup0'', ''ImageTags''] ! 2)
            (initial_em raw_exposure)))
       [''General_EM'', ''exposure_time'']"
proof -
  let ?rules = "dm3_misc_mapping cpython raw_exposure [''ImageList'', ''TagGroup0'', ''ImageTags'']"
  let ?m1 = "?rules ! 2" and ?m2 = "?rules ! 3"
  let ?leaf = "VDict [(''value'', VFloat (1 / 2)), (''unit'', VStr ''SEC'')]"
  let ?d = "initial_em raw_exposure"
  have p1: "dest_path ?m1 = [''General_EM'', ''exposure_time'']"
   and p2: "dest_path ?m2 = dest_path ?m1" and o2: "\<not> override ?m2"
    by (simp_all add: dm3_misc_mapping_def)
  have v: "rule_value ?m1 = Some ?leaf" by code_simp
  have e: "\<not> is_empty_value ?leaf" by (simp add: is_empty_value_def)
  have w: "writable ?d (dest_path ?m1)" unfolding p1 by code_simp
  have n: "\<not> populated ?d (dest_path ?m1)" unfolding p1 by code_simp
  from first_writer_wins [of ?d _ "[]" ?m1 ?leaf ?m2] v e w n p2 o2
  have "walk (VDict (map_dict_values [?m1, ?m2] ?d)) (dest_path ?m1) = Some ?leaf" by blast
  moreover have "map_dict_values ?rules ?d = map_dict_values [?m1, ?m2] ?d" by code_simp
  moreover have pop: "populated (apply_rule ?m1 ?d) [''General_EM'', ''exposure_time'']"
    by code_simp
  moreover have "\<forall>m\<in>set [?m2]. \<not> override m
                   \<and> \<not> strict_prefix [''General_EM'', ''exposure_time''] (dest_path m)"
    using o2 p2 p1 by simp
  with first_writer_wins [of "apply_rule ?m1 ?d" "[''General_EM'', ''exposure_time'']" "[?m2]"] pop
  have "walk (VDict (map_dict_values [?m2] (apply_rule ?m1 ?d))) [''General_EM'', ''exposure_time'']
          = walk (VDict (apply_rule ?m1 ?d)) [''General_EM'', ''exposure_time'']" by blast
  ultimately show ?thesis by (simp only: p1 simp_thms)
qed

section \<open>One field through the stages\<close>

lemma dict_at_writable: "dict_at d k \<Longrightarrow> writable d [k, f]"
  by (auto simp: dict_at_def split: option.splits val.splits)

lemma set_path_field_frame:
  assumes "incomparable q [k, f]" "dict_at d k"
  shows "dict_at (set_path d q v) k \<and> walk (VDict (set_path d q v)) [k, f] = walk (VDict d) [k, f]"
proof
  from assms(1) show "walk (VDict (set_path d q v)) [k, f] = walk (VDict d) [k, f]"
    by (intro walk_set_path_other) (simp_all add: incomparable_def)
  show "dict_at (set_path d q v) k"
  proof (cases "q = [] \<or> hd q \<noteq> k")
    case True
    then have "map_of (set_path d q v) k = map_of d k" by (rule set_path_top_other)
    with assms(2) show ?thesis by (simp add: dict_at_def)
  next
    case False
    with assms(1) obtain k' ks where q: "q = k # k' # ks"
      by (cases q; cases "tl q") (auto simp: incomparable_def)
    with assms(2) show ?thesis
      by (auto simp: dict_at_def update_conv' split: option.splits val.splits)
  qed
qed

lemma apply_rule_field_frame:
  assumes "incomparable (dest_path m) [k, f]" "dict_at d k"
  shows "dict_at (apply_rule m d) k \<and> walk (VDict (apply_rule m d)) [k, f] = walk (VDict d) [k, f]"
  using apply_rule_cases [of m d] set_path_field_frame [OF assms] assms(2) by auto

lemma map_dict_values_field_frame:
  assumes "list_all (\<lambda>m. incomparable (dest_path m) [k, f]) rules" "dict_at d k"
  shows "dict_at (map_dict_values rules d) k
       \<and> walk (VDict (map_dict_values rules d)) [k, f] = walk (VDict d) [k, f]"
  using assms
proof (induction rules arbitrary: d)
  case Nil
  then show ?case by simp
next
  case (Cons m ms)
  from Cons.prems have "dict_at (apply_rule m d) k
      \<and> walk (VDict (apply_rule m d)) [k, f] = walk (VDict d) [k, f]"
    by (intro apply_rule_field_frame) simp_all
  with Cons.IH [of "apply_rule m d"] Cons.prems(1) show ?case by simp
qed

lemma apply_rule_field_write:
  assumes "dest_path m = [k, f]" "dict_at d k" "override m \<or> walk (VDict d) [k, f] = None"
  shows "dict_at (apply_rule m d) k
       \<and> walk (VDict (apply_rule m d)) [k, f]
           = (case rule_value m of None \<Rightarrow> walk (VDict d) [k, f] | Some leaf \<Rightarrow> Some leaf)"
proof (cases "rule_value m")
  case None
  with assms(2) show ?thesis by (simp add: apply_rule_value)
next
  case (Some leaf)
  from assms(3) have "override m \<or> \<not> populated d [k, f]" by (auto simp: populated_def)
  with Some have a: "apply_rule m d = set_path d [k, f] leaf"
    by (auto simp: apply_rule_value assms(1))
  from assms(2) have "dict_at (set_path d [k, f] leaf) k"
    by (auto simp: dict_at_def update_conv' split: option.splits val.splits)
  moreover have "walk (VDict (set_path d [k, f] leaf)) [k, f] = Some leaf"
    by (rule walk_set_path_same) (rule dict_at_writable [OF assms(2)])
  ultimately show ?thesis by (simp add: a Some)
qed

lemma stage_field_frame:
  assumes paths: "list_all (\<lambda>q. incomparable q [k, f]) paths"
      and stage: "\<And>P. P em \<Longrightarrow> (\<And>q d v. q \<in> set paths \<Longrightarrow> P d \<Longrightarrow> P (set_path d q v)) \<Longrightarrow> P em'"
      and "dict_at em k"
  shows "dict_at em' k \<and> walk (VDict em') [k, f] = walk (VDict em) [k, f]"
proof (rule stage [where P = "\<lambda>d. dict_at d k \<and> walk (VDict d) [k, f] = walk (VDict em) [k, f]"])
  show "dict_at em k \<and> walk (VDict em) [k, f] = walk (VDict em) [k, f]"
    using assms(3) by simp
next
  fix q d v
  assume "q \<in> set paths" and d: "dict_at d k \<and> walk (VDict d) [k, f] = walk (VDict em) [k, f]"
  with paths have "incomparable q [k, f]" by (simp add: list_all_iff)
  with set_path_field_frame [of q k f d v] d
  show "dict_at (set_path d q v) k \<and> walk (VDict (set_path d q v)) [k, f] = walk (VDict em) [k, f]"
    by simp
qed

lemmas mapping_defs =
  hs_instrument_mapping_def hs_detector_type_mapping_def hs_detector_node_mapping_def
  hs_general_mapping_def dm3_microscope_info_mapping_def dm3_voltage_mapping_def
  dm3_session_info_mapping_def dm3_meta_data_mapping_def dm3_misc_mapping_def
  dm3_eels_mapping_def dm3_spectrometer_mapping_def dm3_eds_mapping_def
  tecnai_rules_def tecnai_stage_rules_def tecnai_filter_rules_def

lemma voltage_untouched:
  "list_all (\<lambda>q. incomparable q [''General_EM'', ''accelerating_voltage'']) hs_dest_paths"
  "list_all (\<lambda>q. incomparable q [''General_EM'', ''accelerating_voltage'']) eels_dest_paths"
  "list_all (\<lambda>q. incomparable q [''General_EM'', ''accelerating_voltage'']) tecnai_dest_paths"
  "list_all (\<lambda>q. incomparable q [''General_EM'', ''accelerating_voltage'']) eds_dest_paths"
  "list_all (\<lambda>q. incomparable q [''General_EM'', ''accelerating_voltage'']) non_hs_dest_paths"
  by (simp_all add: incomparable_def hs_dest_paths_def eels_dest_paths_def tecnai_dest_paths_def
        eds_dest_paths_def non_hs_dest_paths_def mapping_defs)

lemma defocus_untouched:
  "list_all (\<lambda>q. incomparable q [''TEM'', ''defocus'']) hs_dest_paths"
  "list_all (\<lambda>q. incomparable q [''TEM'', ''defocus'']) general_dest_paths"
  "list_all (\<lambda>q. incomparable q [''TEM'', ''defocus'']) eels_dest_paths"
  "list_all (\<lambda>q. incomparable q [''TEM'', ''defocus'']) eds_dest_paths"
  "list_all (\<lambda>q. incomparable q [''TEM'', ''defocus'']) non_hs_dest_paths"
  by (simp_all add: incomparable_def hs_dest_paths_def general_dest_paths_def eels_dest_paths_def
        eds_dest_paths_def non_hs_dest_paths_def mapping_defs)

lemma initial_em_section:
  "k \<in> set sections \<Longrightarrow> dict_at (initial_em raw_meta) k \<and> walk (VDict (initial_em raw_meta)) [k, f] = None"
  by (auto simp: sections_def initial_em_def dict_at_def)

lemma walk_remove_empty:
  assumes "distinct (map fst em)" "ks \<noteq> []"
  shows "walk (VDict (remove_empty em)) (k # ks) = walk (VDict em) (k # ks)"
proof (cases "k \<in> empty_keys em")
  case False
  then show ?thesis by (simp add: map_of_remove_empty)
next
  case True
  with empty_keys_distinct [OF assms(1)] obtain v where "map_of em k = Some v" "is_empty_value v"
    by auto
  with True assms(2) show ?thesis
    by (cases ks) (auto simp: map_of_remove_empty is_empty_value_def)
qed

lemma walk_record_field:
  assumes "extract_em py meta raw_meta = Inr em"
      and "parse_file py meta raw_meta = Inr rec"
  shows "walk (VDict rec) [''electron_microscopy'', k, f] = walk (VDict em) [k, f]"
proof -
  from assms have rec: "rec = assemble (remove_empty em) (image_info py raw_meta)"
    by (simp add: parse_file_Inr)
  have "walk (VDict rec) [''electron_microscopy'', k, f] = walk (VDict (remove_empty em)) [k, f]"
    unfolding rec by (rule walk_assemble) simp
  also have "\<dots> = walk (VDict em) [k, f]"
    by (rule walk_remove_empty [OF extract_em_distinct [OF assms(1)]]) simp
  finally show ?thesis .
qed

lemma process_hs_data_field_frame:
  assumes "process_hs_data py meta em = Inr em'"
      and "list_all (\<lambda>q. incomparable q [k, f]) hs_dest_paths" "dict_at em k"
  shows "dict_at em' k \<and> walk (VDict em') [k, f] = walk (VDict em) [k, f]"
proof (rule stage_field_frame [OF assms(2) _ assms(3)])
  fix P :: "pydict \<Rightarrow> bool"
  assume "P em" "\<And>q d v. q \<in> set hs_dest_paths \<Longrightarrow> P d \<Longrightarrow> P (set_path d q v)"
  then show "P em'" by (rule process_hs_data_preserves [where P = P, OF assms(1)])
qed

lemma dm3_general_info_field_frame:
  assumes "list_all (\<lambda>q. incomparable q [k, f]) general_dest_paths" "dict_at em k"
  shows "dict_at (dm3_general_info py raw_meta em) k
       \<and> walk (VDict (dm3_general_info py raw_meta em)) [k, f] = walk (VDict em) [k, f]"
proof (rule stage_field_frame [OF assms(1) _ assms(2)])
  fix P :: "pydict \<Rightarrow> bool"
  assume "P em" "\<And>q d v. q \<in> set general_dest_paths \<Longrightarrow> P d \<Longrightarrow> P (set_path d q v)"
  then show "P (dm3_general_info py raw_meta em)"
    by (rule dm3_general_info_preserves [where P = P])
qed

lemma dm3_eels_info_field_frame:
  assumes "list_all (\<lambda>q. incomparable q [k, f]) eels_dest_paths" "dict_at em k"
  shows "dict_at (dm3_eels_info py raw_meta em) k
       \<and> walk (VDict (dm3_eels_info py raw_meta em)) [k, f] = walk (VDict em) [k, f]"
proof (rule stage_field_frame [OF assms(1) _ assms(2)])
  fix P :: "pydict \<Rightarrow> bool"
  assume "P em" "\<And>q d v. q \<in> set eels_dest_paths \<Longrightarrow> P d \<Longrightarrow> P (set_path d q v)"
  then show "P (dm3_eels_info py raw_meta em)"
    by (rule dm3_eels_info_preserves [where P = P])
qed

lemma dm3_tecnai_info_field_frame:
  assumes "dm3_tecnai_info delimiter py raw_meta em = Inr em'"
      and "list_all (\<lambda>q. incomparable q [k, f]) tecnai_dest_paths" "dict_at em k"
  shows "dict_at em' k \<and> walk (VDict em') [k, f] = walk (VDict em) [k, f]"
proof (rule stage_field_frame [OF assms(2) _ assms(3)])
  fix P :: "pydict \<Rightarrow> bool"
  assume "P em" "\<And>q d v. q \<in> set tecnai_dest_paths \<Longrightarrow> P d \<Longrightarrow> P (set_path d q v)"
  then show "P em'" by (rule dm3_tecnai_info_preserves [where P = P, OF assms(1)])
qed

lemma dm3_eds_info_field_frame:
  assumes "list_all (\<lambda>q. incomparable q [k, f]) eds_dest_paths" "dict_at em k"
  shows "dict_at (dm3_eds_info py raw_meta em) k
       \<and> walk (VDict (dm3_eds_info py raw_meta em)) [k, f] = walk (VDict em) [k, f]"
proof (rule stage_field_frame [OF assms(1) _ assms(2)])
  fix P :: "pydict \<Rightarrow> bool"
  assume "P em" "\<And>q d v. q \<in> set eds_dest_paths \<Longrightarrow> P d \<Longrightarrow> P (set_path d q v)"
  then show "P (dm3_eds_info py raw_meta em)"
    by (rule dm3_eds_info_preserves [where P = P])
qed

lemma non_hs_data_field_frame:
  assumes "list_all (\<lambda>q. incomparable q [k, f]) non_hs_dest_paths" "dict_at em k"
  shows "dict_at (non_hs_data py raw_meta em) k
       \<and> walk (VDict (non_hs_data py raw_meta em)) [k, f] = walk (VDict em) [k, f]"
proof (rule stage_field_frame [OF assms(1) _ assms(2)])
  fix P :: "pydict \<Rightarrow> bool"
  assume "P em" "\<And>q d v. q \<in> set non_hs_dest_paths \<Longrightarrow> P d \<Longrightarrow> P (set_path d q v)"
  then show "P (non_hs_data py raw_meta em)"
    by (rule non_hs_data_preserves [where P = P])
qed

lemma dm3_general_info_voltage:
  assumes x: "walk (VDict raw_meta) (get_dm3_tag_pre_path raw_meta @ [''Microscope Info'', ''Voltage''])
                = Some x" "x \<noteq> VNone" "py_float py x = Some v"
      and em: "dict_at em ''General_EM''"
              "walk (VDict em) [''General_EM'', ''accelerating_voltage''] = None"
  shows "dict_at (dm3_general_info py raw_meta em) ''General_EM''
       \<and> walk (VDict (dm3_general_info py raw_meta em)) [''General_EM'', ''accelerating_voltage'']
           = Some (voltage_leaf v)"
proof -
  let ?p = "[''General_EM'', ''accelerating_voltage'']"
  let ?pre = "get_dm3_tag_pre_path raw_meta"
  let ?base = "?pre @ [''Microscope Info'']"
  let ?A = "dm3_microscope_info_mapping py raw_meta ?base"
  let ?V = "dm3_voltage_mapping py raw_meta ?base v"
  let ?S = "dm3_session_info_mapping py raw_meta (?pre @ [''Session Info'']) @
            dm3_meta_data_mapping py raw_meta (?pre @ [''Meta Data'']) @
            dm3_misc_mapping py raw_meta ?pre"
  let ?d0 = "if get_val (VDict raw_meta) [''ImageList'', ''TagGroup0'', ''ImageTags''] None \<noteq> None
             then set_val_units em [''General_EM'', ''acquisition_software_name'']
                    (VStr ''DigitalMicrograph'') None False
             else em"
  have gv: "get_val (VDict raw_meta) (?pre @ [''Microscope Info'', ''Voltage''])
              (Some (cast_float py)) = Some (VFloat v)"
    using x by (simp add: get_val_def cast_float_def)
  have mapping: "dm3_general_mapping py raw_meta = ?A @ ?V @ ?S"
    by (simp add: dm3_general_mapping_def Let_def gv)
  have d0: "dict_at ?d0 ''General_EM'' \<and> walk (VDict ?d0) ?p = None"
    using set_val_units_cases [of em "[''General_EM'', ''acquisition_software_name'']"
            "VStr ''DigitalMicrograph''" None False]
          set_path_field_frame [of "[''General_EM'', ''acquisition_software_name'']"
            "''General_EM''" "''accelerating_voltage''" em] em
    by (auto simp: incomparable_def simp del: set_path.simps)
  have "list_all (\<lambda>m. incomparable (dest_path m) ?p) ?A"
    by (simp add: dm3_microscope_info_mapping_def incomparable_def)
  from map_dict_values_field_frame [OF this, of ?d0] d0
  have dA: "dict_at (map_dict_values ?A ?d0) ''General_EM''
            \<and> walk (VDict (map_dict_values ?A ?d0)) ?p = None" by simp
  obtain r where V: "?V = [r]" and rp: "dest_path r = ?p"
    and rv: "rule_value r = Some (voltage_leaf v)"
    using x by (simp add: dm3_voltage_mapping_def rule_value_def get_val_def cast_float_def
                  with_unit_def voltage_leaf_def)
  from apply_rule_field_write [OF rp, of "map_dict_values ?A ?d0"] dA rv
  have dV: "dict_at (map_dict_values ?V (map_dict_values ?A ?d0)) ''General_EM''
            \<and> walk (VDict (map_dict_values ?V (map_dict_values ?A ?d0))) ?p = Some (voltage_leaf v)"
    by (simp add: V)
  have "list_all (\<lambda>m. incomparable (dest_path m) ?p) ?S"
    by (simp add: dm3_session_info_mapping_def dm3_meta_data_mapping_def dm3_misc_mapping_def
          incomparable_def)
  from map_dict_values_field_frame [OF this, of "map_dict_values ?V (map_dict_values ?A ?d0)"] dV
  show ?thesis
    by (simp add: dm3_general_info_def mapping map_dict_values_append)
qed

text \<open>
  Claim C6. When the parse returns and the DigitalMicrograph Voltage tag holds a value
  that \<^verbatim>\<open>float\<close> turns into \<open>v\<close>, the record has \<^verbatim>\<open>General_EM.accelerating_voltage\<close> with
  \<open>v / 1000\<close> in \<^verbatim>\<open>KiloEV\<close> for \<open>v \<ge> 1000\<close> and with \<open>v\<close> unchanged in \<^verbatim>\<open>EV\<close> otherwise.
\<close>

theorem accelerating_voltage_by_magnitude:
  assumes "parse_file py meta raw_meta = Inr rec"
      and "walk (VDict raw_meta) (get_dm3_tag_pre_path raw_meta @ [''Microscope Info'', ''Voltage''])
             = Some x"
      and "x \<noteq> VNone" and "py_float py x = Some v"
  shows "walk (VDict rec) [''electron_microscopy'', ''General_EM'', ''accelerating_voltage''] =
           Some (if v \<ge> 1000
                 then VDict [(''value'', VFloat (v / 1000)), (''unit'', VStr ''KiloEV'')]
                 else VDict [(''value'', VFloat v), (''unit'', VStr ''EV'')])"
proof -
  let ?k = "''General_EM''" and ?f = "''accelerating_voltage''"
  from assms(1) obtain em where em: "extract_em py meta raw_meta = Inr em"
    by (auto simp: parse_file_Inr)
  then obtain em1 em2 where
    1: "process_hs_data py meta (initial_em raw_meta) = Inr em1" and
    2: "dm3_tecnai_info line_separator py raw_meta
          (dm3_eels_info py raw_meta (dm3_general_info py raw_meta em1)) = Inr em2" and
    3: "em = non_hs_data py raw_meta (dm3_eds_info py raw_meta em2)"
    by (auto simp: extract_em_def split: sum.splits)
  have "dict_at em1 ?k \<and> walk (VDict em1) [?k, ?f] = None"
    using process_hs_data_field_frame [OF 1 voltage_untouched(1)]
          initial_em_section [of ?k raw_meta ?f]
    by (simp add: sections_def)
  then have "dict_at (dm3_general_info py raw_meta em1) ?k
      \<and> walk (VDict (dm3_general_info py raw_meta em1)) [?k, ?f] = Some (voltage_leaf v)"
    using dm3_general_info_voltage [OF assms(2-4)] by simp
  then have "dict_at (dm3_eels_info py raw_meta (dm3_general_info py raw_meta em1)) ?k
      \<and> walk (VDict (dm3_eels_info py raw_meta (dm3_general_info py raw_meta em1))) [?k, ?f]
          = Some (voltage_leaf v)"
    using dm3_eels_info_field_frame [OF voltage_untouched(2)] by simp
  then have "dict_at em2 ?k \<and> walk (VDict em2) [?k, ?f] = Some (voltage_leaf v)"
    using dm3_tecnai_info_field_frame [OF 2 voltage_untouched(3)] by simp
  then have "dict_at (dm3_eds_info py raw_meta em2) ?k
      \<and> walk (VDict (dm3_eds_info py raw_meta em2)) [?k, ?f] = Some (voltage_leaf v)"
    using dm3_eds_info_field_frame [OF voltage_untouched(4)] by simp
  then have "walk (VDict em) [?k, ?f] = Some (voltage_leaf v)"
    unfolding 3 using non_hs_data_field_frame [OF voltage_untouched(5)] by simp
  with walk_record_field [OF em assms(1)] show ?thesis
    by (simp add: voltage_leaf_def)
qed

theorem accelerating_voltage_by_magnitude_witness:
  "parse_file cpython []
     (raw_with_image_tags [(''Microscope Info'', VDict [(''Voltage'', VInt 200000)])])
     = Inr [(''electron_microscopy'',
             VDict [(''raw_metadata'',
                     VDict (raw_with_image_tags [(''Microscope Info'', VDict [(''Voltage'', VInt 200000)])])),
                    (''General_EM'',
                     VDict [(''acquisition_software_name'', VStr ''DigitalMicrograph''),
                            (''accelerating_voltage'',
                             VDict [(''value'', VFloat 200), (''unit'', VStr ''KiloEV'')])])])]
   \<and> walk (VDict [(''electron_microscopy'',
             VDict [(''raw_metadata'',
                     VDict (raw_with_image_tags [(''Microscope Info'', VDict [(''Voltage'', VInt 200000)])])),
                    (''General_EM'',
                     VDict [(''acquisition_software_name'', VStr ''DigitalMicrograph''),
                            (''accelerating_voltage'',
                             VDict [(''value'', VFloat 200), (''unit'', VStr ''KiloEV'')])])])])
        [''electron_microscopy'', ''General_EM'', ''accelerating_voltage'']
       = Some (VDict [(''value'', VFloat (200000 / 1000)), (''unit'', VStr ''KiloEV'')])
   \<and> parse_file cpython []
         (raw_with_image_tags [(''Microscope Info'', VDict [(''Voltage'', VFloat 200)])])
     = Inr [(''electron_microscopy'',
             VDict [(''raw_metadata'',
                     VDict (raw_with_image_tags [(''Microscope Info'', VDict [(''Voltage'', VFloat 200)])])),
                    (''General_EM'',
                     VDict [(''acquisition_software_name'', VStr ''DigitalMicrograph''),
                            (''accelerating_voltage'',
                             VDict [(''value'', VFloat 200), (''unit'', VStr ''EV'')])])])]"
proof -
  let ?raw = "raw_with_image_tags [(''Microscope Info'', VDict [(''Voltage'', VInt 200000)])]"
  let ?rec = "[(''electron_microscopy'',
             VDict [(''raw_metadata'', VDict ?raw),
                    (''General_EM'',
                     VDict [(''acquisition_software_name'', VStr ''DigitalMicrograph''),
                            (''accelerating_voltage'',
                             VDict [(''value'', VFloat 200), (''unit'', VStr ''KiloEV'')])])])]"
  have p: "parse_file cpython [] ?raw = Inr ?rec" by code_simp
  have w: "walk (VDict ?raw) (get_dm3_tag_pre_path ?raw @ [''Microscope Info'', ''Voltage''])
             = Some (VInt 200000)" by code_simp
  have f: "py_float cpython (VInt 200000) = Some 200000" by (simp add: cpython_def)
  from accelerating_voltage_by_magnitude [OF p w _ f]
  have "walk (VDict ?rec) [''electron_microscopy'', ''General_EM'', ''accelerating_voltage'']
          = Some (VDict [(''value'', VFloat (200000 / 1000)), (''unit'', VStr ''KiloEV'')])"
    by simp
  moreover have "parse_file cpython []
         (raw_with_image_tags [(''Microscope Info'', VDict [(''Voltage'', VFloat 200)])])
     = Inr [(''electron_microscopy'',
             VDict [(''raw_metadata'',
                     VDict (raw_with_image_tags [(''Microscope Info'', VDict [(''Voltage'', VFloat 200)])])),
                    (''General_EM'',
                     VDict [(''acquisition_software_name'', VStr ''DigitalMicrograph''),
                            (''accelerating_voltage'',
                             VDict [(''value'', VFloat 200), (''unit'', VStr ''EV'')])])])]"
    by code_simp
  ultimately show ?thesis using p by blast
qed

lemma tecnai_mapping_Inr:
  assumes "tecnai_mapping py tecnai_info = Inr rules" "find_val ''Mode '' tecnai_info = Some line"
  shows "\<exists>mn ev ec om mg cl ss.
           rules = tecnai_rules py mn ev ec om (map_option fst (rx_search rx_defocus_mag line))
                     (map_option fst (rx_search rx_defocus_diff line)) mg cl ss"
  using assms by (fastforce simp: tecnai_mapping_def then_do_Inr)

lemma defocus_rule_value:
  "rule_value \<lparr>source_dict = VDict [(''Defocus'', opt_str (map_option fst (rx_search rx line)))],
               source_path = [''Defocus''], dest_path = p, cast_fn = cast_float py,
               units = Some ''MicroM'', conv_fn = None, override = True\<rparr>
     = defocus_leaf py rx line"
  by (auto simp: rule_value_def get_val_def opt_str_def cast_float_def with_unit_def
        defocus_leaf_def split: option.splits)

lemma tecnai_rules_defocus:
  assumes "dict_at d ''TEM''"
  shows "dict_at (map_dict_values
           (tecnai_rules py mn ev ec om (map_option fst (rx_search rx_defocus_mag line))
              (map_option fst (rx_search rx_defocus_diff line)) mg cl ss) d) ''TEM''
       \<and> walk (VDict (map_dict_values
           (tecnai_rules py mn ev ec om (map_option fst (rx_search rx_defocus_mag line))
              (map_option fst (rx_search rx_defocus_diff line)) mg cl ss) d)) [''TEM'', ''defocus'']
         = (case defocus_leaf py rx_defocus_diff line of
              Some leaf \<Rightarrow> Some leaf
            | None \<Rightarrow>
                (case defocus_leaf py rx_defocus_mag line of
                   Some leaf \<Rightarrow> Some leaf
                 | None \<Rightarrow> walk (VDict d) [''TEM'', ''defocus'']))"
proof -
  let ?p = "[''TEM'', ''defocus'']"
  let ?rules = "tecnai_rules py mn ev ec om (map_option fst (rx_search rx_defocus_mag line))
                  (map_option fst (rx_search rx_defocus_diff line)) mg cl ss"
  let ?A = "take 4 ?rules" and ?r5 = "?rules ! 4" and ?r6 = "?rules ! 5" and ?B = "drop 6 ?rules"
  have split: "?rules = ?A @ [?r5, ?r6] @ ?B" by (simp add: tecnai_rules_def)
  have A: "list_all (\<lambda>m. incomparable (dest_path m) ?p) ?A"
   and B: "list_all (\<lambda>m. incomparable (dest_path m) ?p) ?B"
    by (simp_all add: tecnai_rules_def incomparable_def)
  have r5: "dest_path ?r5 = ?p" "override ?r5" "rule_value ?r5 = defocus_leaf py rx_defocus_mag line"
   and r6: "dest_path ?r6 = ?p" "override ?r6" "rule_value ?r6 = defocus_leaf py rx_defocus_diff line"
    by (simp_all add: tecnai_rules_def defocus_rule_value)
  let ?d1 = "map_dict_values ?A d"
  let ?d2 = "apply_rule ?r5 ?d1"
  let ?d3 = "apply_rule ?r6 ?d2"
  from map_dict_values_field_frame [OF A assms]
  have d1: "dict_at ?d1 ''TEM''" "walk (VDict ?d1) ?p = walk (VDict d) ?p" by simp_all
  from apply_rule_field_write [OF r5(1) d1(1)] r5(2,3) d1(2)
  have d2: "dict_at ?d2 ''TEM''"
    "walk (VDict ?d2) ?p = (case defocus_leaf py rx_defocus_mag line of
                              None \<Rightarrow> walk (VDict d) ?p | Some leaf \<Rightarrow> Some leaf)"
    by (simp_all split: option.splits)
  from apply_rule_field_write [OF r6(1) d2(1)] r6(2,3) d2(2)
  have d3: "dict_at ?d3 ''TEM''"
    "walk (VDict ?d3) ?p = (case defocus_leaf py rx_defocus_diff line of
                              None \<Rightarrow> (case defocus_leaf py rx_defocus_mag line of
                                         None \<Rightarrow> walk (VDict d) ?p | Some leaf \<Rightarrow> Some leaf)
                            | Some leaf \<Rightarrow> Some leaf)"
    by (simp_all split: option.splits)
  have "map_dict_values ?rules d = map_dict_values ?B ?d3"
    by (subst split) (simp add: map_dict_values_append)
  with map_dict_values_field_frame [OF B d3(1)] d3(2) show ?thesis
    by (simp split: option.splits)
qed

lemma tecnai_stage_mapping_defocus:
  "tecnai_stage_mapping py tecnai_info = Inr rules \<Longrightarrow>
     list_all (\<lambda>m. incomparable (dest_path m) [''TEM'', ''defocus'']) rules"
  by (auto simp: tecnai_stage_mapping_def then_do_Inr tecnai_stage_rules_def incomparable_def
           split: option.splits if_splits)

lemma tecnai_filter_mapping_defocus:
  "tecnai_filter_mapping py tecnai_info = Inr rules \<Longrightarrow>
     list_all (\<lambda>m. incomparable (dest_path m) [''TEM'', ''defocus'']) rules"
  by (auto simp: tecnai_filter_mapping_def then_do_Inr tecnai_filter_rules_def incomparable_def
           split: if_splits)

lemma dm3_tecnai_info_defocus:
  assumes "dm3_tecnai_info line_separator py raw_meta em = Inr em'"
      and "get_val (VDict raw_meta) path_to_tecnai None = Some (VStr blob)"
      and "find_val ''Mode '' (split_from line_separator [] blob) = Some line"
      and "dict_at em ''TEM''"
  shows "walk (VDict em') [''TEM'', ''defocus'']
         = (case defocus_leaf py rx_defocus_diff line of
              Some leaf \<Rightarrow> Some leaf
            | None \<Rightarrow>
                (case defocus_leaf py rx_defocus_mag line of
                   Some leaf \<Rightarrow> Some leaf
                 | None \<Rightarrow> walk (VDict em) [''TEM'', ''defocus'']))"
    and "dict_at em' ''TEM''"
proof -
  let ?lines = "split_from line_separator [] blob"
  have sp: "py_split blob line_separator = Inr ?lines"
    by (simp add: py_split_def line_separator_def)
  from assms(1,2) obtain a b c where
    a: "tecnai_mapping py ?lines = Inr a" and b: "tecnai_stage_mapping py ?lines = Inr b" and
    c: "tecnai_filter_mapping py ?lines = Inr c" and
    em': "em' = map_dict_values (a @ b @ c) em"
    by (auto simp: dm3_tecnai_info_def path_to_tecnai_def sp then_do_Inr)
  from tecnai_mapping_Inr [OF a assms(3)] obtain mn ev ec om mg cl ss where
    a': "a = tecnai_rules py mn ev ec om (map_option fst (rx_search rx_defocus_mag line))
               (map_option fst (rx_search rx_defocus_diff line)) mg cl ss" by blast
  have bc: "list_all (\<lambda>m. incomparable (dest_path m) [''TEM'', ''defocus'']) (b @ c)"
    using tecnai_stage_mapping_defocus [OF b] tecnai_filter_mapping_defocus [OF c] by simp
  have em'': "em' = map_dict_values (b @ c) (map_dict_values a em)"
    by (simp add: em' map_dict_values_append)
  from tecnai_rules_defocus [OF assms(4), of py mn ev ec om line mg cl ss]
       map_dict_values_field_frame [OF bc, of "map_dict_values a em"]
  show "walk (VDict em') [''TEM'', ''defocus'']
         = (case defocus_leaf py rx_defocus_diff line of
              Some leaf \<Rightarrow> Some leaf
            | None \<Rightarrow>
                (case defocus_leaf py rx_defocus_mag line of
                   Some leaf \<Rightarrow> Some leaf
                 | None \<Rightarrow> walk (VDict em) [''TEM'', ''defocus'']))"
    and "dict_at em' ''TEM''"
    by (simp_all add: em'' a')
qed

text \<open>
  Claim C7, amended. Both defocus rules have \<^verbatim>\<open>override=True\<close> and run in order, so the
  last one that matches and casts wins: \<^verbatim>\<open>TEM.defocus\<close> holds the value of the
  diffraction-mode pattern when that gives one, else the value of the imaging-mode
  pattern, else nothing.
\<close>

theorem defocus_last_match_wins:
  assumes "parse_file py meta raw_meta = Inr rec"
      and "get_val (VDict raw_meta) path_to_tecnai None = Some (VStr blob)"
      and "find_val ''Mode '' (split_from line_separator [] blob) = Some line"
  shows "walk (VDict rec) [''electron_microscopy'', ''TEM'', ''defocus'']
         = (case defocus_leaf py rx_defocus_diff line of
              Some leaf \<Rightarrow> Some leaf
            | None \<Rightarrow> defocus_leaf py rx_defocus_mag line)"
proof -
  let ?k = "''TEM''" and ?f = "''defocus''"
  from assms(1) obtain em where em: "extract_em py meta raw_meta = Inr em"
    by (auto simp: parse_file_Inr)
  then obtain em1 em2 where
    1: "process_hs_data py meta (initial_em raw_meta) = Inr em1" and
    2: "dm3_tecnai_info line_separator py raw_meta
          (dm3_eels_info py raw_meta (dm3_general_info py raw_meta em1)) = Inr em2" and
    3: "em = non_hs_data py raw_meta (dm3_eds_info py raw_meta em2)"
    by (auto simp: extract_em_def split: sum.splits)
  let ?em3 = "dm3_eels_info py raw_meta (dm3_general_info py raw_meta em1)"
  have "dict_at em1 ?k \<and> walk (VDict em1) [?k, ?f] = None"
    using process_hs_data_field_frame [OF 1 defocus_untouched(1)]
          initial_em_section [of ?k raw_meta ?f]
    by (simp add: sections_def)
  then have "dict_at (dm3_general_info py raw_meta em1) ?k
      \<and> walk (VDict (dm3_general_info py raw_meta em1)) [?k, ?f] = None"
    using dm3_general_info_field_frame [OF defocus_untouched(2)] by simp
  then have em3: "dict_at ?em3 ?k \<and> walk (VDict ?em3) [?k, ?f] = None"
    using dm3_eels_info_field_frame [OF defocus_untouched(3)] by simp
  from dm3_tecnai_info_defocus [OF 2 assms(2,3)] em3
  have "dict_at em2 ?k \<and> walk (VDict em2) [?k, ?f]
         = (case defocus_leaf py rx_defocus_diff line of
              Some leaf \<Rightarrow> Some leaf
            | None \<Rightarrow> defocus_leaf py rx_defocus_mag line)"
    by (simp split: option.splits)
  then have "dict_at (dm3_eds_info py raw_meta em2) ?k
      \<and> walk (VDict (dm3_eds_info py raw_meta em2)) [?k, ?f]
         = (case defocus_leaf py rx_defocus_diff line of
              Some leaf \<Rightarrow> Some leaf
            | None \<Rightarrow> defocus_leaf py rx_defocus_mag line)"
    using dm3_eds_info_field_frame [OF defocus_untouched(4)] by simp
  then have "walk (VDict em) [?k, ?f]
         = (case defocus_leaf py rx_defocus_diff line of
              Some leaf \<Rightarrow> Some leaf
            | None \<Rightarrow> defocus_leaf py rx_defocus_mag line)"
    unfolding 3 using non_hs_data_field_frame [OF defocus_untouched(5)] by simp
  with walk_record_field [OF em assms(1)] show ?thesis by simp
qed

theorem defocus_last_match_wins_witness:
  "parse_file cpython [] (raw_with_tecnai imaging_lines)
     = Inr [(''electron_microscopy'',
             VDict [(''raw_metadata'', VDict (raw_with_tecnai imaging_lines)),
                    (''General_EM'',
                     VDict [(''acquisition_software_name'', VStr ''DigitalMicrograph''),
                            (''magnification_indicated'',
                             VDict [(''value'', VInt 50), (''unit'', VStr ''UNITLESS'')])]),
                    (''TEM'',
                     VDict [(''operation_mode'', VStr ''TEM''),
                            (''defocus'',
                             VDict [(''value'', VFloat (3 / 2)), (''unit'', VStr ''MicroM'')])])])]
   \<and> find_val ''Mode '' (split_from line_separator [] (join_lines line_separator imaging_lines))
       = Some ''TEM Defocus (um) 1.5 Magn 50x''
   \<and> defocus_leaf cpython rx_defocus_diff ''TEM Defocus (um) 1.5 Magn 50x'' = None
   \<and> defocus_leaf cpython rx_defocus_mag ''TEM Defocus (um) 1.5 Magn 50x''
       = Some (VDict [(''value'', VFloat (3 / 2)), (''unit'', VStr ''MicroM'')])
   \<and> walk (VDict [(''electron_microscopy'',
             VDict [(''raw_metadata'', VDict (raw_with_tecnai imaging_lines)),
                    (''General_EM'',
                     VDict [(''acquisition_software_name'', VStr ''DigitalMicrograph''),
                            (''magnification_indicated'',
                             VDict [(''value'', VInt 50), (''unit'', VStr ''UNITLESS'')])]),
                    (''TEM'',
                     VDict [(''operation_mode'', VStr ''TEM''),
                            (''defocus'',
                             VDict [(''value'', VFloat (3 / 2)), (''unit'', VStr ''MicroM'')])])])])
        [''electron_microscopy'', ''TEM'', ''defocus'']
       = Some (VDict [(''value'', VFloat (3 / 2)), (''unit'', VStr ''MicroM'')])"
proof -
  let ?line = "''TEM Defocus (um) 1.5 Magn 50x''"
  let ?rec = "[(''electron_microscopy'',
             VDict [(''raw_metadata'', VDict (raw_with_tecnai imaging_lines)),
                    (''General_EM'',
                     VDict [(''acquisition_software_name'', VStr ''DigitalMicrograph''),
                            (''magnification_indicated'',
                             VDict [(''value'', VInt 50), (''unit'', VStr ''UNITLESS'')])]),
                    (''TEM'',
                     VDict [(''operation_mode'', VStr ''TEM''),
                            (''defocus'',
                             VDict [(''value'', VFloat (3 / 2)), (''unit'', VStr ''MicroM'')])])])]"
  have p: "parse_file cpython [] (raw_with_tecnai imaging_lines) = Inr ?rec" by code_simp
  have g: "get_val (VDict (raw_with_tecnai imaging_lines)) path_to_tecnai None
             = Some (VStr (join_lines line_separator imaging_lines))" by code_simp
  have f: "find_val ''Mode '' (split_from line_separator [] (join_lines line_separator imaging_lines))
             = Some ?line" by code_simp
  have d: "defocus_leaf cpython rx_defocus_diff ?line = None" by code_simp
  have m: "defocus_leaf cpython rx_defocus_mag ?line
             = Some (VDict [(''value'', VFloat (3 / 2)), (''unit'', VStr ''MicroM'')])" by code_simp
  from defocus_last_match_wins [OF p g f]
  have "walk (VDict ?rec) [''electron_microscopy'', ''TEM'', ''defocus'']
          = Some (VDict [(''value'', VFloat (3 / 2)), (''unit'', VStr ''MicroM'')])"
    by (simp only: d m option.case)
  with p f d m show ?thesis by blast
qed

text \<open>
  A "Mode " line on which both defocus patterns match, the first with 1.5 and the second
  with 2.5: \<^verbatim>\<open>TEM.defocus\<close> holds 2.5, against claim C7 as stated.
\<close>

theorem defocus_first_match_counterexample:
  "parse_file cpython [] (raw_with_tecnai both_lines)
     = Inr [(''electron_microscopy'',
             VDict [(''raw_metadata'', VDict (raw_with_tecnai both_lines)),
                    (''General_EM'',
                     VDict [(''acquisition_software_name'', VStr ''DigitalMicrograph''),
                            (''magnification_indicated'',
                             VDict [(''value'', VInt 50), (''unit'', VStr ''UNITLESS'')])]),
                    (''TEM'',
                     VDict [(''operation_mode'', VStr ''TEM Defocus (um) 1.5 Magn 50x''),
                            (''defocus'',
                             VDict [(''value'', VFloat (5 / 2)), (''unit'', VStr ''MicroM'')]),
                            (''camera_length'',
                             VDict [(''value'', VFloat 1000), (''unit'', VStr ''MilliM'')])])])]
   \<and> find_val ''Mode '' (split_from line_separator [] (join_lines line_separator both_lines))
       = Some ''TEM Defocus (um) 1.5 Magn 50x Defocus 2.5 CL 1m''
   \<and> defocus_leaf cpython rx_defocus_mag ''TEM Defocus (um) 1.5 Magn 50x Defocus 2.5 CL 1m''
       = Some (VDict [(''value'', VFloat (3 / 2)), (''unit'', VStr ''MicroM'')])
   \<and> defocus_leaf cpython rx_defocus_diff ''TEM Defocus (um) 1.5 Magn 50x Defocus 2.5 CL 1m''
       = Some (VDict [(''value'', VFloat (5 / 2)), (''unit'', VStr ''MicroM'')])"
  by code_simp

section \<open>Lines that are absent from the Tecnai block\<close>

text \<open>
  \<^verbatim>\<open>__extract_val\<close> is handed \<^verbatim>\<open>None\<close> when no line holds the text searched for, and the
  TypeError of \<^verbatim>\<open>search\<close> ends the construction of the rule list.
\<close>

lemma missing_line_type_error:
  "find_val ''Extr volt '' tecnai_info = None \<Longrightarrow> tecnai_mapping py tecnai_info = Inl TypeError"
  "find_val ''Extr volt '' tecnai_info = Some s \<Longrightarrow> find_val ''Emission '' tecnai_info = None
     \<Longrightarrow> tecnai_mapping py tecnai_info = Inl TypeError"
  "find_val ''Extr volt '' tecnai_info = Some s \<Longrightarrow> find_val ''Emission '' tecnai_info = Some t
     \<Longrightarrow> find_val ''Mode '' tecnai_info = None
     \<Longrightarrow> tecnai_mapping py tecnai_info = Inl TypeError"
  by (simp_all add: tecnai_mapping_def then_do_def)

text \<open>
  Claim C2 fails on the code. A Tecnai block without an "Extr volt " line, without an
  "Emission " line or without a "Mode " line makes the parse raise TypeError, and a
  "Stage" line with fewer than three micrometre values makes it raise ValueError: no
  record is returned.
\<close>

theorem tecnai_absent_line_raises:
  "parse_file cpython [] (raw_with_tecnai [''Microscope Titan'']) = Inl TypeError
   \<and> parse_file cpython [] (raw_with_tecnai [''Extr volt 4 V'', ''Mode TEM'']) = Inl TypeError
   \<and> parse_file cpython [] (raw_with_tecnai [''Extr volt 4 V'', ''Emission 1uA'']) = Inl TypeError
   \<and> parse_file cpython [] (raw_with_tecnai (imaging_lines @ [''Stage X 1.0 um''])) = Inl ValueError"
  by code_simp

end
